theory Spec2Isabelle
  imports Main "HOL-Library.Sublist" "HOL-Library.Multiset"
begin

section \<open>Data model of \<^verbatim>\<open>server.ts\<close>\<close>

text \<open>
  The object literals built by the four page callbacks.  A field that the literal does not
  mention (\<^verbatim>\<open>args\<close> of a page error, \<^verbatim>\<open>errorText\<close> of a response) is \<open>None\<close>.
  Timestamps of entries are the ISO strings \<^verbatim>\<open>new Date().toISOString()\<close> yields when
  the callback runs; they are supplied by the event.
\<close>

record log_entry =
  l_type :: string
  l_text :: string
  l_args :: "string list option"
  l_timestamp :: string

record net_entry =
  n_url :: string
  n_status :: int
  n_method :: string
  n_type :: string
  n_errorText :: "string option"
  n_timestamp :: string

text \<open>
  What the automation engine reports to a callback, together with the clock reading at the
  moment the callback fires:
  \<^item> \<open>Console type text args clock\<close> for \<^verbatim>\<open>page.on("console")\<close>;
  \<^item> \<open>PageError str clock\<close> for \<^verbatim>\<open>page.on("pageerror")\<close>, \<open>str\<close> being \<^verbatim>\<open>err.toString()\<close>;
  \<^item> \<open>Response url status method resourceType clock\<close> for \<^verbatim>\<open>page.on("response")\<close>;
  \<^item> \<open>RequestFailed url method resourceType failure clock\<close> for
    \<^verbatim>\<open>page.on("requestfailed")\<close>, \<open>failure\<close> being \<^verbatim>\<open>request.failure()?.errorText\<close>
    (\<open>None\<close> when \<^verbatim>\<open>failure()\<close> is null).
\<close>

datatype page_event =
    Console string string "string list" string
  | PageError string string
  | Response string int string string string
  | RequestFailed string string string "string option" string

text \<open>
  The payload of \<^verbatim>\<open>scan-complete\<close>: \<^verbatim>\<open>{status: "success", scanId}\<close> or
  \<^verbatim>\<open>{status: "error", message}\<close>; and the four kinds of message \<^verbatim>\<open>socket.emit\<close> sends.
\<close>

datatype scan_complete = Success nat | Failed string

datatype message =
    ConsoleLog log_entry
  | NetworkLog net_entry
  | ScreenshotMsg string
  | ScanComplete scan_complete

text \<open>
  The table \<^verbatim>\<open>scans\<close>.  \<^verbatim>\<open>logs\<close> and \<^verbatim>\<open>network\<close> hold JSON text; \<^verbatim>\<open>timestamp\<close> is the
  store's clock at insertion (\<^verbatim>\<open>DEFAULT CURRENT_TIMESTAMP\<close>), read here as a number of
  seconds: the fixed-width text SQLite writes is ordered like the instant it denotes.
  \<^verbatim>\<open>seq\<close> is the \<^verbatim>\<open>AUTOINCREMENT\<close> counter (the largest row id ever assigned).
\<close>

record scan_row =
  r_id :: nat
  r_url :: string
  r_timestamp :: nat
  r_logs :: string
  r_network :: string
  r_screenshot :: "string option"
  r_error_count :: nat
  r_warn_count :: nat

record database =
  rows :: "scan_row list"
  seq :: nat

text \<open>
  \<^verbatim>\<open>JSON.stringify\<close> and \<^verbatim>\<open>JSON.parse\<close> belong to the language runtime, not to this
  program; they are parameters of the model, at the two types the program uses them.
  \<open>None\<close> from a parser is the \<^verbatim>\<open>SyntaxError\<close> it throws.
\<close>

record json =
  stringify_logs :: "log_entry list \<Rightarrow> string"
  parse_logs :: "string \<Rightarrow> log_entry list option"
  stringify_network :: "net_entry list \<Rightarrow> string"
  parse_network :: "string \<Rightarrow> net_entry list option"

text \<open>
  Everything the handler does to the outside world, in the order it does it: calls on the
  automation engine, messages emitted on the socket, and the (successful) insert.
\<close>

datatype action =
    Launch
  | NewPage
  | SetViewport
  | Goto string
  | TakeScreenshot
  | Emit message
  | DbInsert scan_row
  | BrowserClose

text \<open>
  The behaviour of the external collaborators during one scan.  An awaited call either
  resolves or throws an \<^verbatim>\<open>Error\<close> with a message (\<open>Some m\<close>, \<open>Inl m\<close>); while
  \<^verbatim>\<open>goto\<close>, \<^verbatim>\<open>screenshot\<close> and \<^verbatim>\<open>close\<close> are awaited, the page callbacks installed
  before may fire.  \<open>insert_result\<close> is \<^verbatim>\<open>db.prepare\<close> with \<^verbatim>\<open>stmt.run\<close>: it throws, or
  inserts at the given clock reading.  \<open>catch_clock\<close> is the time read in the \<^verbatim>\<open>catch\<close> block.
\<close>

record engine =
  launch_throws :: "string option"
  newPage_throws :: "string option"
  setViewport_throws :: "string option"
  goto_events :: "page_event list"
  goto_throws :: "string option"
  screenshot_events :: "page_event list"
  screenshot_result :: "string + string"
  insert_result :: "string + nat"
  catch_clock :: string
  close_events :: "page_event list"
  close_throws :: "string option"

text \<open>The local variables of the \<^verbatim>\<open>scan-url\<close> handler, the trace and the store.\<close>

record session =
  browser :: bool
  logs :: "log_entry list"
  networkLogs :: "net_entry list"
  screenshotBase64 :: string
  trace :: "action list"
  db :: database

section \<open>The page callbacks\<close>

definition act :: "action \<Rightarrow> session \<Rightarrow> session" where
  "act a s = s\<lparr>trace := trace s @ [a]\<rparr>"

definition emit :: "message \<Rightarrow> session \<Rightarrow> session" where
  "emit m s = act (Emit m) s"

definition on_console :: "string \<Rightarrow> string \<Rightarrow> string list \<Rightarrow> string \<Rightarrow> session \<Rightarrow> session" where
  "on_console ty tx as now s =
     (let logEntry = \<lparr>l_type = ty, l_text = tx, l_args = Some as, l_timestamp = now\<rparr>
      in emit (ConsoleLog logEntry) (s\<lparr>logs := logs s @ [logEntry]\<rparr>))"

definition on_pageerror :: "string \<Rightarrow> string \<Rightarrow> session \<Rightarrow> session" where
  "on_pageerror err now s =
     (let logEntry = \<lparr>l_type = ''error'', l_text = err, l_args = None, l_timestamp = now\<rparr>
      in emit (ConsoleLog logEntry) (s\<lparr>logs := logs s @ [logEntry]\<rparr>))"

definition on_response :: "string \<Rightarrow> int \<Rightarrow> string \<Rightarrow> string \<Rightarrow> string \<Rightarrow> session \<Rightarrow> session" where
  "on_response u st m rt now s =
     (let netEntry = \<lparr>n_url = u, n_status = st, n_method = m, n_type = rt,
                       n_errorText = None, n_timestamp = now\<rparr>
      in if \<not> prefix ''data:'' (n_url netEntry)
         then emit (NetworkLog netEntry) (s\<lparr>networkLogs := networkLogs s @ [netEntry]\<rparr>)
         else s)"

text \<open>
  \<^verbatim>\<open>request.failure()?.errorText || "Failed"\<close>: the default is taken when there is no
  failure object and also when its text is the empty string.
\<close>

definition or_Failed :: "string option \<Rightarrow> string" where
  "or_Failed f = (case f of None \<Rightarrow> ''Failed'' | Some t \<Rightarrow> if t = [] then ''Failed'' else t)"

definition on_requestfailed ::
    "string \<Rightarrow> string \<Rightarrow> string \<Rightarrow> string option \<Rightarrow> string \<Rightarrow> session \<Rightarrow> session" where
  "on_requestfailed u m rt f now s =
     (let netEntry = \<lparr>n_url = u, n_status = 0, n_method = m, n_type = rt,
                       n_errorText = Some (or_Failed f), n_timestamp = now\<rparr>
      in if \<not> prefix ''data:'' (n_url netEntry)
         then emit (NetworkLog netEntry) (s\<lparr>networkLogs := networkLogs s @ [netEntry]\<rparr>)
         else s)"

fun fire :: "page_event \<Rightarrow> session \<Rightarrow> session" where
  "fire (Console ty tx as now) s = on_console ty tx as now s"
| "fire (PageError err now) s = on_pageerror err now s"
| "fire (Response u st m rt now) s = on_response u st m rt now s"
| "fire (RequestFailed u m rt f now) s = on_requestfailed u m rt f now s"

definition fire_all :: "page_event list \<Rightarrow> session \<Rightarrow> session" where
  "fire_all evs s = fold fire evs s"

section \<open>The \<^verbatim>\<open>scan-url\<close> handler\<close>

text \<open>
  \<^verbatim>\<open>id INTEGER PRIMARY KEY AUTOINCREMENT\<close>: the new row id is one more than the largest
  id the table holds or ever held.
\<close>

definition next_rowid :: "database \<Rightarrow> nat" where
  "next_rowid d = Suc (fold max (map r_id (rows d)) (seq d))"

definition new_session :: "database \<Rightarrow> session" where
  "new_session d = \<lparr>browser = False, logs = [], networkLogs = [], screenshotBase64 = [],
                     trace = [], db = d\<rparr>"

text \<open>
  The \<^verbatim>\<open>try\<close> block, in three parts.  Each returns the exception that left the block
  (\<open>None\<close> when it ran to its end) and the state at that moment.

  Lines 129 to 139: the screenshot string is stored and emitted, the counts are taken from
  \<^verbatim>\<open>logs\<close>, the row is inserted and \<^verbatim>\<open>scan-complete\<close> is emitted with the new row id.
\<close>

definition finalize :: "json \<Rightarrow> engine \<Rightarrow> string \<Rightarrow> string \<Rightarrow> session \<Rightarrow> string option \<times> session" where
  "finalize J e url shot s =
     (let s4 = emit (ScreenshotMsg shot) (s\<lparr>screenshotBase64 := shot\<rparr>);
          errorCount = length (filter (\<lambda>l. l_type l = ''error'') (logs s4));
          warnCount = length (filter (\<lambda>l. l_type l = ''warn'') (logs s4))
      in (case insert_result e of
            Inl m \<Rightarrow> (Some m, s4)
          | Inr now \<Rightarrow>
             (let lastInsertRowid = next_rowid (db s4);
                 row = \<lparr>r_id = lastInsertRowid, r_url = url, r_timestamp = now,
                        r_logs = stringify_logs J (logs s4),
                        r_network = stringify_network J (networkLogs s4),
                        r_screenshot = Some (screenshotBase64 s4),
                        r_error_count = errorCount, r_warn_count = warnCount\<rparr>;
                 s5 = act (DbInsert row)
                        (s4\<lparr>db := \<lparr>rows = rows (db s4) @ [row], seq = lastInsertRowid\<rparr>\<rparr>)
              in (None, emit (ScanComplete (Success lastInsertRowid)) s5))))"

text \<open>
  Lines 127 to 129: navigation, then the screenshot call.  The four callbacks are installed
  before (lines 74 to 125); the events of the engine reach them while a call is awaited.
\<close>

definition navigate :: "json \<Rightarrow> engine \<Rightarrow> string \<Rightarrow> session \<Rightarrow> string option \<times> session" where
  "navigate J e url s =
     (let s2 = fire_all (goto_events e) (act (Goto url) s)
      in (case goto_throws e of
            Some m \<Rightarrow> (Some m, s2)
          | None \<Rightarrow>
              (let s3 = fire_all (screenshot_events e) (act TakeScreenshot s2)
               in (case screenshot_result e of
                     Inl m \<Rightarrow> (Some m, s3)
                   | Inr shot \<Rightarrow> finalize J e url shot s3))))"

text \<open>Lines 66 to 71, then the rest: \<^verbatim>\<open>browser\<close> is assigned only when launch resolves.\<close>

definition try_block :: "json \<Rightarrow> engine \<Rightarrow> string \<Rightarrow> session \<Rightarrow> string option \<times> session" where
  "try_block J e url s =
     (case launch_throws e of
        Some m \<Rightarrow> (Some m, act Launch s)
      | None \<Rightarrow>
          (let s1 = (act Launch s)\<lparr>browser := True\<rparr>
           in (case newPage_throws e of
                 Some m \<Rightarrow> (Some m, act NewPage s1)
               | None \<Rightarrow>
                   (case setViewport_throws e of
                      Some m \<Rightarrow> (Some m, act SetViewport (act NewPage s1))
                    | None \<Rightarrow> navigate J e url (act SetViewport (act NewPage s1))))))"

definition failure_entry :: "engine \<Rightarrow> string \<Rightarrow> log_entry" where
  "failure_entry e m = \<lparr>l_type = ''error'', l_text = ''Failed to load page: '' @ m,
                         l_args = None, l_timestamp = catch_clock e\<rparr>"

definition catch_block :: "engine \<Rightarrow> string \<Rightarrow> session \<Rightarrow> session" where
  "catch_block e m s =
     emit (ScanComplete (Failed m)) (emit (ConsoleLog (failure_entry e m)) s)"

text \<open>
  The \<^verbatim>\<open>finally\<close> block.  The first component is the exception that leaves it, and with
  it the handler: there is no handler around \<^verbatim>\<open>browser.close()\<close>.
\<close>

definition finally_block :: "engine \<Rightarrow> session \<Rightarrow> string option \<times> session" where
  "finally_block e s =
     (if browser s
      then (close_throws e, fire_all (close_events e) (act BrowserClose s))
      else (None, s))"

definition scan_url :: "json \<Rightarrow> engine \<Rightarrow> string \<Rightarrow> database \<Rightarrow> string option \<times> session" where
  "scan_url J e url d =
     (case try_block J e url (new_session d) of
        (None, s) \<Rightarrow> finally_block e s
      | (Some m, s) \<Rightarrow> finally_block e (catch_block e m s))"

section \<open>The history routes\<close>

record summary =
  s_id :: nat
  s_url :: string
  s_timestamp :: nat
  s_error_count :: nat
  s_warn_count :: nat

record full_scan =
  f_id :: nat
  f_url :: string
  f_timestamp :: nat
  f_logs :: "log_entry list"
  f_network :: "net_entry list"
  f_screenshot :: "string option"
  f_error_count :: nat
  f_warn_count :: nat

datatype body = Summaries "summary list" | Scan full_scan | Error string

record response =
  http_status :: nat
  http_body :: body

definition summary_of :: "scan_row \<Rightarrow> summary" where
  "summary_of r = \<lparr>s_id = r_id r, s_url = r_url r, s_timestamp = r_timestamp r,
                    s_error_count = r_error_count r, s_warn_count = r_warn_count r\<rparr>"

text \<open>
  \<^verbatim>\<open>ORDER BY timestamp DESC\<close>.  SQLite reads the table in the order of the row ids and
  sorts what it reads, keeping rows with equal timestamps in the order read: among rows
  inserted in the same second the one with the smaller id, the older one, comes first.
  (\<open>sort_key\<close> is a stable sort.)
\<close>

definition order_by_timestamp_desc :: "scan_row list \<Rightarrow> scan_row list" where
  "order_by_timestamp_desc rs = sort_key (\<lambda>r. - int (r_timestamp r)) (sort_key r_id rs)"

text \<open>
  \<^verbatim>\<open>GET /api/history\<close>.  \<open>fails\<close> says that the statement throws (the store is
  unavailable); \<^verbatim>\<open>res.json\<close> without \<^verbatim>\<open>res.status\<close> answers 200.
\<close>

definition get_history :: "bool \<Rightarrow> database \<Rightarrow> response" where
  "get_history fails d =
     (if fails then \<lparr>http_status = 500, http_body = Error ''Failed to fetch history''\<rparr>
      else \<lparr>http_status = 200,
             http_body = Summaries (map summary_of (take 50 (order_by_timestamp_desc (rows d))))\<rparr>)"

text \<open>
  \<^verbatim>\<open>GET /api/history/:id\<close>.  The path parameter is compared with the integer column
  \<^verbatim>\<open>id\<close>; the model takes the number it denotes.  A \<^verbatim>\<open>JSON.parse\<close> that throws is caught
  by the same \<^verbatim>\<open>catch\<close> as a failing statement.
\<close>

definition get_history_id :: "json \<Rightarrow> bool \<Rightarrow> database \<Rightarrow> nat \<Rightarrow> response" where
  "get_history_id J fails d i =
     (if fails then \<lparr>http_status = 500, http_body = Error ''Failed to fetch scan''\<rparr>
      else (case find (\<lambda>r. r_id r = i) (rows d) of
             None \<Rightarrow> \<lparr>http_status = 404, http_body = Error ''Scan not found''\<rparr>
           | Some scan \<Rightarrow>
               (case parse_logs J (r_logs scan) of
                  None \<Rightarrow> \<lparr>http_status = 500, http_body = Error ''Failed to fetch scan''\<rparr>
                | Some ls \<Rightarrow>
                    (case parse_network J (r_network scan) of
                       None \<Rightarrow> \<lparr>http_status = 500, http_body = Error ''Failed to fetch scan''\<rparr>
                     | Some ns \<Rightarrow>
                         \<lparr>http_status = 200,
                          http_body = Scan \<lparr>f_id = r_id scan, f_url = r_url scan,
                                            f_timestamp = r_timestamp scan, f_logs = ls,
                                            f_network = ns, f_screenshot = r_screenshot scan,
                                            f_error_count = r_error_count scan,
                                            f_warn_count = r_warn_count scan\<rparr>\<rparr>))))"

section \<open>Notions used to state the properties\<close>

text \<open>
  What the callbacks accumulate and emit for a list of events, starting from empty arrays:
  these are the callbacks themselves, run on a fresh session.
\<close>

definition blank :: session where
  "blank = new_session \<lparr>rows = [], seq = 0\<rparr>"

definition captured_logs :: "page_event list \<Rightarrow> log_entry list" where
  "captured_logs evs = logs (fire_all evs blank)"

definition captured_network :: "page_event list \<Rightarrow> net_entry list" where
  "captured_network evs = networkLogs (fire_all evs blank)"

definition published :: "page_event list \<Rightarrow> action list" where
  "published evs = trace (fire_all evs blank)"

text \<open>The messages of a trace, and the \<^verbatim>\<open>scan-complete\<close> payloads among them.\<close>

fun sent :: "action \<Rightarrow> message list" where
  "sent (Emit m) = [m]"
| "sent _ = []"

definition messages :: "action list \<Rightarrow> message list" where
  "messages tr = concat (map sent tr)"

fun completion :: "message \<Rightarrow> scan_complete list" where
  "completion (ScanComplete c) = [c]"
| "completion _ = []"

definition completions :: "action list \<Rightarrow> scan_complete list" where
  "completions tr = concat (map completion (messages tr))"

fun log_of :: "message \<Rightarrow> log_entry list" where
  "log_of (ConsoleLog l) = [l]"
| "log_of _ = []"

fun network_of :: "message \<Rightarrow> net_entry list" where
  "network_of (NetworkLog n) = [n]"
| "network_of _ = []"

fun screenshot_of :: "message \<Rightarrow> string list" where
  "screenshot_of (ScreenshotMsg b) = [b]"
| "screenshot_of _ = []"

text \<open>The \<^verbatim>\<open>console-log\<close>, \<^verbatim>\<open>network-log\<close> and \<^verbatim>\<open>screenshot\<close> payloads of a trace, in order.\<close>

definition emitted_logs :: "action list \<Rightarrow> log_entry list" where
  "emitted_logs tr = concat (map log_of (messages tr))"

definition emitted_network :: "action list \<Rightarrow> net_entry list" where
  "emitted_network tr = concat (map network_of (messages tr))"

definition emitted_screenshots :: "action list \<Rightarrow> string list" where
  "emitted_screenshots tr = concat (map screenshot_of (messages tr))"

fun inserted :: "action \<Rightarrow> scan_row list" where
  "inserted (DbInsert r) = [r]"
| "inserted _ = []"

text \<open>The rows a trace inserts, and the number of times it closes the browser.\<close>

definition inserts :: "action list \<Rightarrow> scan_row list" where
  "inserts tr = concat (map inserted tr)"

definition closes :: "action list \<Rightarrow> nat" where
  "closes tr = length (filter (\<lambda>a. a = BrowserClose) tr)"

text \<open>
  The order of the history: the later timestamp first, and of two rows with the same
  timestamp the one with the smaller id first.
\<close>

definition history_order :: "scan_row \<Rightarrow> scan_row \<Rightarrow> bool" where
  "history_order a b \<longleftrightarrow>
     r_timestamp b < r_timestamp a \<or> (r_timestamp a = r_timestamp b \<and> r_id a \<le> r_id b)"

text \<open>
  The \<^verbatim>\<open>try\<close> block run from the handler's initial state: its first component is the
  exception the \<^verbatim>\<open>catch\<close> block receives (\<open>None\<close> when the scan succeeds), its second the
  state at that moment.
\<close>

definition tried :: "json \<Rightarrow> engine \<Rightarrow> string \<Rightarrow> database \<Rightarrow> string option \<times> session" where
  "tried J e url d = try_block J e url (new_session d)"

section \<open>Example scans\<close>

text \<open>
  The scenario of a page that logs \<^verbatim>\<open>hello\<close>, logs the error \<^verbatim>\<open>boom\<close> and is served
  with status 200, and variations of it in which one collaborator fails.
\<close>

definition empty_db :: database where
  "empty_db = \<lparr>rows = [], seq = 0\<rparr>"

definition example_engine :: engine where
  "example_engine =
     \<lparr>launch_throws = None, newPage_throws = None, setViewport_throws = None,
      goto_events =
        [Response ''https://example.com/'' 200 ''GET'' ''document'' ''2024-05-01T10:00:01.000Z'',
         Console ''log'' ''hello'' [''JSHandle:hello''] ''2024-05-01T10:00:02.000Z'',
         Console ''error'' ''boom'' [''JSHandle:boom''] ''2024-05-01T10:00:03.000Z''],
      goto_throws = None,
      screenshot_events = [],
      screenshot_result = Inr ''iVBORw0KGgo='',
      insert_result = Inr 1714557605,
      catch_clock = ''2024-05-01T10:00:31.000Z'',
      close_events = [],
      close_throws = None\<rparr>"

definition example_logs :: "log_entry list" where
  "example_logs =
     [\<lparr>l_type = ''log'', l_text = ''hello'', l_args = Some [''JSHandle:hello''],
       l_timestamp = ''2024-05-01T10:00:02.000Z''\<rparr>,
      \<lparr>l_type = ''error'', l_text = ''boom'', l_args = Some [''JSHandle:boom''],
       l_timestamp = ''2024-05-01T10:00:03.000Z''\<rparr>]"

definition example_network :: "net_entry list" where
  "example_network =
     [\<lparr>n_url = ''https://example.com/'', n_status = 200, n_method = ''GET'',
       n_type = ''document'', n_errorText = None,
       n_timestamp = ''2024-05-01T10:00:01.000Z''\<rparr>]"

text \<open>
  A stand-in for the runtime's JSON functions, enough to run the examples.  Documents are
  written in JSON notation, the keys in the order of the object literals and absent fields
  left out (strings are written without escapes: the examples need none).  Reading
  recognises the documents of the example scan and the empty array, and nothing else.
\<close>

definition quoted :: "string \<Rightarrow> string" where
  "quoted s = [CHR 0x22] @ s @ [CHR 0x22]"

definition keyed :: "string \<Rightarrow> string \<Rightarrow> string" where
  "keyed k v = quoted k @ '':'' @ v"

fun commas :: "string list \<Rightarrow> string" where
  "commas [] = []"
| "commas [x] = x"
| "commas (x # y # ys) = x @ '','' @ commas (y # ys)"

definition array :: "string list \<Rightarrow> string" where
  "array xs = ''['' @ commas xs @ '']''"

definition object :: "string list \<Rightarrow> string" where
  "object ms = ''{'' @ commas ms @ ''}''"

fun show_nat :: "nat \<Rightarrow> string" where
  "show_nat n =
     (if n < 10 then [''0123456789'' ! n]
      else show_nat (n div 10) @ [''0123456789'' ! (n mod 10)])"

declare show_nat.simps [simp del]

definition show_int :: "int \<Rightarrow> string" where
  "show_int i = (if i < 0 then ''-'' @ show_nat (nat (- i)) else show_nat (nat i))"

definition show_log :: "log_entry \<Rightarrow> string" where
  "show_log l =
     object ([keyed ''type'' (quoted (l_type l)), keyed ''text'' (quoted (l_text l))]
       @ (case l_args l of None \<Rightarrow> [] | Some as \<Rightarrow> [keyed ''args'' (array (map quoted as))])
       @ [keyed ''timestamp'' (quoted (l_timestamp l))])"

definition show_net :: "net_entry \<Rightarrow> string" where
  "show_net n =
     object ([keyed ''url'' (quoted (n_url n)), keyed ''status'' (show_int (n_status n)),
              keyed ''method'' (quoted (n_method n)), keyed ''type'' (quoted (n_type n))]
       @ (case n_errorText n of None \<Rightarrow> [] | Some t \<Rightarrow> [keyed ''errorText'' (quoted t)])
       @ [keyed ''timestamp'' (quoted (n_timestamp n))])"

definition example_json :: json where
  "example_json =
     \<lparr>stringify_logs = (\<lambda>ls. array (map show_log ls)),
      parse_logs = (\<lambda>t. if t = array (map show_log example_logs) then Some example_logs
                         else if t = ''[]'' then Some [] else None),
      stringify_network = (\<lambda>ns. array (map show_net ns)),
      parse_network = (\<lambda>t. if t = array (map show_net example_network) then Some example_network
                            else if t = ''[]'' then Some [] else None)\<rparr>"

definition timeout_engine :: engine where
  "timeout_engine =
     example_engine\<lparr>goto_throws := Some ''Navigation timeout of 30000 ms exceeded''\<rparr>"

definition no_screenshot_engine :: engine where
  "no_screenshot_engine =
     example_engine\<lparr>screenshot_result := Inl ''Protocol error (Page.captureScreenshot)''\<rparr>"

definition no_launch_engine :: engine where
  "no_launch_engine =
     example_engine\<lparr>launch_throws := Some ''Failed to launch the browser process''\<rparr>"

definition close_fails_engine :: engine where
  "close_fails_engine =
     example_engine\<lparr>close_throws := Some ''Protocol error: Connection closed''\<rparr>"

text \<open>A page loaded from a file: the engine reports its response with status 0.\<close>

definition file_engine :: engine where
  "file_engine =
     example_engine\<lparr>goto_events :=
       [Response ''file:///srv/index.html'' 0 ''GET'' ''document'' ''2024-05-01T10:00:01.000Z'']\<rparr>"

text \<open>A page with an inline image, and a failed request with no failure object.\<close>

definition data_engine :: engine where
  "data_engine =
     example_engine\<lparr>goto_events :=
       [Response ''https://example.com/'' 200 ''GET'' ''document'' ''2024-05-01T10:00:01.000Z'',
        Response ''data:image/png;base64,AAAA'' 200 ''GET'' ''image'' ''2024-05-01T10:00:02.000Z'',
        RequestFailed ''data:text/plain,x'' ''GET'' ''fetch'' None ''2024-05-01T10:00:03.000Z'',
        RequestFailed ''https://example.com/a.js'' ''GET'' ''script'' None
          ''2024-05-01T10:00:04.000Z'']\<rparr>"

text \<open>A page that goes on logging while the browser is being closed.\<close>

definition late_engine :: engine where
  "late_engine =
     example_engine\<lparr>close_events :=
       [Console ''log'' ''tick'' [''JSHandle:tick''] ''2024-05-01T10:00:06.000Z'']\<rparr>"

text \<open>
  Stores for the history routes: three rows; sixty rows; and sixty rows inserted in the
  same second.
\<close>

definition stored :: "nat \<Rightarrow> nat \<Rightarrow> scan_row" where
  "stored i t = \<lparr>r_id = i, r_url = ''https://example.com'', r_timestamp = t,
                  r_logs = ''[]'', r_network = ''[]'', r_screenshot = Some ''iVBORw0KGgo='',
                  r_error_count = 0, r_warn_count = 0\<rparr>"

definition history_db :: database where
  "history_db = \<lparr>rows = [stored 1 10, stored 2 30, stored 3 20], seq = 3\<rparr>"

definition long_db :: database where
  "long_db = \<lparr>rows = map (\<lambda>i. stored (Suc i) (100 + i)) [0..<60], seq = 60\<rparr>"

text \<open>The store after two example scans that are inserted in the same second.\<close>

definition two_scans_db :: database where
  "two_scans_db =
     db (snd (scan_url example_json example_engine ''https://example.org''
       (db (snd (scan_url example_json example_engine ''https://example.com'' empty_db)))))"

definition burst_db :: database where
  "burst_db = \<lparr>rows = map (\<lambda>i. stored (Suc i) 100) [0..<60], seq = 60\<rparr>"

section \<open>The callbacks only append\<close>

lemma fire_untouched:
  "db (fire ev s) = db s" "browser (fire ev s) = browser s"
  "screenshotBase64 (fire ev s) = screenshotBase64 s"
  by (cases ev; simp add: on_console_def on_pageerror_def on_response_def
        on_requestfailed_def emit_def act_def Let_def)+

lemma fire_appends:
  "logs (fire ev s) = logs s @ logs (fire ev blank)"
  "networkLogs (fire ev s) = networkLogs s @ networkLogs (fire ev blank)"
  "trace (fire ev s) = trace s @ trace (fire ev blank)"
  by (cases ev; simp add: on_console_def on_pageerror_def on_response_def
        on_requestfailed_def emit_def act_def Let_def blank_def new_session_def)+

lemma blank_fields:
  "logs blank = []" "networkLogs blank = []" "trace blank = []"
  by (simp_all add: blank_def new_session_def)

lemma fold_fire_untouched:
  "db (fold fire evs s) = db s \<and> browser (fold fire evs s) = browser s \<and>
   screenshotBase64 (fold fire evs s) = screenshotBase64 s"
  by (induction evs arbitrary: s) (simp_all add: fire_untouched)

lemma fold_fire_appends:
  "logs (fold fire evs s) = logs s @ logs (fold fire evs blank) \<and>
   networkLogs (fold fire evs s) = networkLogs s @ networkLogs (fold fire evs blank) \<and>
   trace (fold fire evs s) = trace s @ trace (fold fire evs blank)"
proof (induction evs arbitrary: s)
  case Nil
  show ?case by (simp add: blank_fields)
next
  case (Cons ev evs)
  note here = Cons.IH [of "fire ev s"] and there = Cons.IH [of "fire ev blank"]
  have "logs (fold fire (ev # evs) s) = logs s @ logs (fold fire (ev # evs) blank)"
    using here there fire_appends(1) [of ev s] by (simp add: blank_fields)
  moreover have "networkLogs (fold fire (ev # evs) s)
      = networkLogs s @ networkLogs (fold fire (ev # evs) blank)"
    using here there fire_appends(2) [of ev s] by (simp add: blank_fields)
  moreover have "trace (fold fire (ev # evs) s) = trace s @ trace (fold fire (ev # evs) blank)"
    using here there fire_appends(3) [of ev s] by (simp add: blank_fields)
  ultimately show ?case by blast
qed

lemma fire_all_eq:
  "fire_all evs s = s\<lparr>logs := logs s @ captured_logs evs,
                       networkLogs := networkLogs s @ captured_network evs,
                       trace := trace s @ published evs\<rparr>"
  using fold_fire_untouched [of evs s] fold_fire_appends [of evs s]
  by (intro session.equality)
     (simp_all add: fire_all_def captured_logs_def captured_network_def published_def)

lemma captured_append:
  "captured_logs (xs @ ys) = captured_logs xs @ captured_logs ys"
  "captured_network (xs @ ys) = captured_network xs @ captured_network ys"
  "published (xs @ ys) = published xs @ published ys"
  using fold_fire_appends [of ys "fold fire xs blank"]
  by (simp_all add: captured_logs_def captured_network_def published_def fire_all_def)

section \<open>Reading a trace\<close>

lemma messages_simps [simp]:
  "messages [] = []"
  "messages (a # tr) = sent a @ messages tr"
  "messages (tr @ tr') = messages tr @ messages tr'"
  by (simp_all add: messages_def)

lemma projections_Nil [simp]:
  "completions [] = []" "emitted_logs [] = []" "emitted_network [] = []"
  "emitted_screenshots [] = []" "inserts [] = []" "closes [] = 0"
  by (simp_all add: completions_def emitted_logs_def emitted_network_def
        emitted_screenshots_def inserts_def closes_def)

lemma projections_append [simp]:
  "completions (tr @ tr') = completions tr @ completions tr'"
  "emitted_logs (tr @ tr') = emitted_logs tr @ emitted_logs tr'"
  "emitted_network (tr @ tr') = emitted_network tr @ emitted_network tr'"
  "emitted_screenshots (tr @ tr') = emitted_screenshots tr @ emitted_screenshots tr'"
  "inserts (tr @ tr') = inserts tr @ inserts tr'"
  "closes (tr @ tr') = closes tr + closes tr'"
  by (simp_all add: completions_def emitted_logs_def emitted_network_def
        emitted_screenshots_def inserts_def closes_def)

lemma projections_Cons [simp]:
  "completions (a # tr) = concat (map completion (sent a)) @ completions tr"
  "emitted_logs (a # tr) = concat (map log_of (sent a)) @ emitted_logs tr"
  "emitted_network (a # tr) = concat (map network_of (sent a)) @ emitted_network tr"
  "emitted_screenshots (a # tr) = concat (map screenshot_of (sent a)) @ emitted_screenshots tr"
  "inserts (a # tr) = inserted a @ inserts tr"
  "closes (a # tr) = (if a = BrowserClose then 1 else 0) + closes tr"
  by (simp_all add: completions_def emitted_logs_def emitted_network_def
        emitted_screenshots_def inserts_def closes_def)

lemma captured_Nil [simp]:
  "captured_logs [] = []" "captured_network [] = []" "published [] = []"
  by (simp_all add: captured_logs_def captured_network_def published_def fire_all_def
        blank_fields)

lemma captured_Cons:
  "captured_logs (ev # evs) = logs (fire ev blank) @ captured_logs evs"
  "captured_network (ev # evs) = networkLogs (fire ev blank) @ captured_network evs"
  "published (ev # evs) = trace (fire ev blank) @ published evs"
  using captured_append [of "[ev]" evs]
  by (simp_all add: captured_logs_def captured_network_def published_def fire_all_def)

lemma fire_blank:
  "inserts (trace (fire ev blank)) = []"
  "closes (trace (fire ev blank)) = 0"
  "completions (trace (fire ev blank)) = []"
  "emitted_screenshots (trace (fire ev blank)) = []"
  "emitted_logs (trace (fire ev blank)) = logs (fire ev blank)"
  "emitted_network (trace (fire ev blank)) = networkLogs (fire ev blank)"
  by (cases ev; simp add: on_console_def on_pageerror_def on_response_def
        on_requestfailed_def emit_def act_def Let_def blank_def new_session_def)+

lemma published_projections [simp]:
  "inserts (published evs) = []"
  "closes (published evs) = 0"
  "completions (published evs) = []"
  "emitted_screenshots (published evs) = []"
  "emitted_logs (published evs) = captured_logs evs"
  "emitted_network (published evs) = captured_network evs"
  by (induction evs; simp add: captured_Cons fire_blank)+

lemmas handler_defs = scan_url_def tried_def try_block_def navigate_def finalize_def
  catch_block_def finally_block_def new_session_def emit_def act_def Let_def fire_all_eq

section \<open>Outcome of the handler\<close>

lemmas example_defs = example_engine_def example_json_def example_logs_def
  example_network_def empty_db_def

lemma tried_outcome:
  "fst (tried J e url d) =
     (case launch_throws e of Some m \<Rightarrow> Some m | None \<Rightarrow>
     (case newPage_throws e of Some m \<Rightarrow> Some m | None \<Rightarrow>
     (case setViewport_throws e of Some m \<Rightarrow> Some m | None \<Rightarrow>
     (case goto_throws e of Some m \<Rightarrow> Some m | None \<Rightarrow>
     (case screenshot_result e of Inl m \<Rightarrow> Some m | Inr shot \<Rightarrow>
     (case insert_result e of Inl m \<Rightarrow> Some m | Inr now \<Rightarrow> None))))))"
  by (simp add: handler_defs split: option.splits sum.splits)

lemma fold_max_ge: "a \<le> fold max xs (a::nat) \<and> (\<forall>x\<in>set xs. x \<le> fold max xs a)"
proof (induction xs arbitrary: a)
  case Nil
  show ?case by simp
next
  case (Cons y ys)
  have "max y a \<le> fold max ys (max y a)" and "\<forall>x\<in>set ys. x \<le> fold max ys (max y a)"
    using Cons.IH [of "max y a"] by simp_all
  then show ?case by auto
qed

lemma next_rowid_fresh: "r \<in> set (rows d) \<Longrightarrow> r_id r < next_rowid d"
  using fold_max_ge [of "seq d" "map r_id (rows d)"] by (auto simp: next_rowid_def less_Suc_eq_le)

lemma next_rowid_fresh_find: "find (\<lambda>r. r_id r = next_rowid d) (rows d) = None"
  by (auto simp: find_None_iff dest: next_rowid_fresh)

section \<open>Closing the browser\<close>

text \<open>
  Claim C3, as the code has it.  For every scan, whatever the collaborators do: the browser
  is acquired exactly when launch resolves; if it was acquired, \<^verbatim>\<open>browser.close()\<close> is
  called exactly once, on every exit path, and if it was not, close is not called at all.
  An error raised by the close call is not absorbed: it leaves the \<^verbatim>\<open>finally\<close> block and
  the handler (its promise rejects with that error).
\<close>

theorem C3_close_once:
  "browser (snd (scan_url J e url d)) = (launch_throws e = None) \<and>
   closes (trace (snd (scan_url J e url d))) = (if launch_throws e = None then 1 else 0) \<and>
   fst (scan_url J e url d) = (if launch_throws e = None then close_throws e else None)"
  by (simp add: handler_defs split: option.splits sum.splits)

theorem C3_close_once_witness:
  "closes (trace (snd (scan_url example_json timeout_engine ''https://example.com'' empty_db))) = 1 \<and>
   closes (trace (snd (scan_url example_json no_launch_engine ''https://example.com'' empty_db))) = 0 \<and>
   fst (scan_url example_json no_launch_engine ''https://example.com'' empty_db) = None"
  using C3_close_once [of example_json timeout_engine "''https://example.com''" empty_db]
    C3_close_once [of example_json no_launch_engine "''https://example.com''" empty_db]
  by (simp add: timeout_engine_def no_launch_engine_def example_defs)

text \<open>
  Claim C3 as stated: an error of the close call never reaches the caller.  In the example
  scan whose close call fails, the handler is left by that very error.
\<close>

theorem C3_close_error_counterexample:
  "browser (snd (scan_url example_json close_fails_engine ''https://example.com'' empty_db)) \<and>
   fst (scan_url example_json close_fails_engine ''https://example.com'' empty_db)
     = Some ''Protocol error: Connection closed''"
  by (simp add: handler_defs close_fails_engine_def example_defs)

section \<open>The completion notice\<close>

text \<open>
  Claim C4, as the code has it.  Every scan emits exactly one \<^verbatim>\<open>scan-complete\<close> message.
  When the \<^verbatim>\<open>try\<close> block ends without an exception the payload is the success payload
  carrying the id of the row just inserted, an id no earlier row has; when it is left by
  an exception with message \<open>m\<close> (also one raised before the page loaded) the payload is
  the error payload carrying \<open>m\<close>, after the synthetic log entry, and no row is inserted.
  It is the last message of the \<^verbatim>\<open>try\<close> and \<^verbatim>\<open>catch\<close> blocks but not of the scan: the
  \<^verbatim>\<open>console-log\<close> and \<^verbatim>\<open>network-log\<close> messages for what is captured while the browser is
  being closed follow it, and none of them is a \<^verbatim>\<open>scan-complete\<close>.
\<close>

theorem C4_one_scan_complete:
  "completions (trace (snd (scan_url J e url d))) =
     [case fst (tried J e url d) of None \<Rightarrow> Success (next_rowid d) | Some m \<Rightarrow> Failed m] \<and>
   map r_id (inserts (trace (snd (scan_url J e url d)))) =
     (case fst (tried J e url d) of None \<Rightarrow> [next_rowid d] | Some m \<Rightarrow> []) \<and>
   rows (db (snd (scan_url J e url d))) = rows d @ inserts (trace (snd (scan_url J e url d))) \<and>
   next_rowid d \<notin> r_id ` set (rows d) \<and>
   messages (trace (snd (scan_url J e url d))) =
     (case fst (tried J e url d) of
        None \<Rightarrow> butlast (messages (trace (snd (tried J e url d))))
                  @ [ScanComplete (Success (next_rowid d))]
      | Some m \<Rightarrow> messages (trace (snd (tried J e url d)))
                  @ [ConsoleLog (failure_entry e m), ScanComplete (Failed m)])
     @ messages (published (if launch_throws e = None then close_events e else [])) \<and>
   completions (published (if launch_throws e = None then close_events e else [])) = [] \<and>
   emitted_logs (published (if launch_throws e = None then close_events e else []))
     = captured_logs (if launch_throws e = None then close_events e else []) \<and>
   emitted_network (published (if launch_throws e = None then close_events e else []))
     = captured_network (if launch_throws e = None then close_events e else [])"
proof -
  have 1: "next_rowid d \<notin> r_id ` set (rows d)"
    by (auto dest: next_rowid_fresh)
  have 2: "completions (trace (snd (scan_url J e url d))) =
     [case fst (tried J e url d) of None \<Rightarrow> Success (next_rowid d) | Some m \<Rightarrow> Failed m]"
    by (simp add: handler_defs split: option.splits sum.splits)
  have 3: "map r_id (inserts (trace (snd (scan_url J e url d)))) =
     (case fst (tried J e url d) of None \<Rightarrow> [next_rowid d] | Some m \<Rightarrow> [])"
    by (simp add: handler_defs split: option.splits sum.splits)
  have 4: "rows (db (snd (scan_url J e url d)))
      = rows d @ inserts (trace (snd (scan_url J e url d)))"
    by (simp add: handler_defs split: option.splits sum.splits)
  have 5: "messages (trace (snd (scan_url J e url d))) =
     (case fst (tried J e url d) of
        None \<Rightarrow> butlast (messages (trace (snd (tried J e url d))))
                  @ [ScanComplete (Success (next_rowid d))]
      | Some m \<Rightarrow> messages (trace (snd (tried J e url d)))
                  @ [ConsoleLog (failure_entry e m), ScanComplete (Failed m)])
     @ messages (published (if launch_throws e = None then close_events e else []))"
    by (simp add: handler_defs butlast_append split: option.splits sum.splits)
  from 1 2 3 4 5 show ?thesis by simp
qed

theorem C4_one_scan_complete_witness:
  "completions (trace (snd (scan_url example_json example_engine ''https://example.com'' empty_db)))
     = [Success 1] \<and>
   completions (trace (snd (scan_url example_json timeout_engine ''https://example.com'' empty_db)))
     = [Failed ''Navigation timeout of 30000 ms exceeded''] \<and>
   completions (trace (snd (scan_url example_json late_engine ''https://example.com'' empty_db)))
     = [Success 1]"
  using C4_one_scan_complete [of example_json example_engine "''https://example.com''" empty_db]
    C4_one_scan_complete [of example_json timeout_engine "''https://example.com''" empty_db]
    C4_one_scan_complete [of example_json late_engine "''https://example.com''" empty_db]
  by (simp add: tried_outcome timeout_engine_def late_engine_def example_defs next_rowid_def)

text \<open>
  Claim C4 as stated: the \<^verbatim>\<open>scan-complete\<close> message is terminal.  In the example scan of
  a page that logs while the browser is being closed, a \<^verbatim>\<open>console-log\<close> message follows
  the \<^verbatim>\<open>scan-complete\<close> message.
\<close>

theorem C4_not_terminal_counterexample:
  "completions (trace (snd (scan_url example_json late_engine ''https://example.com'' empty_db)))
     = [Success 1] \<and>
   drop 5 (messages (trace (snd (scan_url example_json late_engine ''https://example.com'' empty_db))))
     = [ConsoleLog \<lparr>l_type = ''log'', l_text = ''tick'', l_args = Some [''JSHandle:tick''],
                    l_timestamp = ''2024-05-01T10:00:06.000Z''\<rparr>] \<and>
   take 1 (drop 4 (messages (trace (snd (scan_url example_json late_engine ''https://example.com'' empty_db)))))
     = [ScanComplete (Success 1)]"
  by (simp add: handler_defs late_engine_def example_engine_def empty_db_def captured_Cons
        on_console_def on_response_def blank_def next_rowid_def)

section \<open>Failed scans\<close>

text \<open>
  Claim C1, as the code has it.  When the \<^verbatim>\<open>try\<close> block is left by an exception with
  message \<open>m\<close> (launch, page creation, viewport, navigation, screenshot or insert raised),
  no record is persisted: the store is unchanged and the trace holds no insert.  Every log
  and network entry captured before the failure had already been emitted to the client
  when it was captured.  The \<^verbatim>\<open>catch\<close> block emits exactly one synthetic log entry of type
  \<^verbatim>\<open>error\<close> with text \<^verbatim>\<open>Failed to load page: \<close>\<open>m\<close>, after those entries and before what is
  captured while the browser closes; it does not add it to \<^verbatim>\<open>logs\<close>.  When the failure is
  that of the navigation, the entries captured before it are those of the events that
  fired during the navigation.
\<close>

theorem C1_failed_scan:
  "fst (tried J e url d) = Some m \<Longrightarrow>
     db (snd (scan_url J e url d)) = d \<and>
     inserts (trace (snd (scan_url J e url d))) = [] \<and>
     emitted_logs (trace (snd (tried J e url d))) = logs (snd (tried J e url d)) \<and>
     emitted_network (trace (snd (tried J e url d))) = networkLogs (snd (tried J e url d)) \<and>
     emitted_logs (trace (snd (scan_url J e url d))) =
       logs (snd (tried J e url d)) @ [failure_entry e m]
         @ captured_logs (if launch_throws e = None then close_events e else []) \<and>
     emitted_network (trace (snd (scan_url J e url d))) =
       networkLogs (snd (tried J e url d))
         @ captured_network (if launch_throws e = None then close_events e else []) \<and>
     logs (snd (scan_url J e url d)) =
       logs (snd (tried J e url d))
         @ captured_logs (if launch_throws e = None then close_events e else []) \<and>
     l_type (failure_entry e m) = ''error'' \<and>
     l_text (failure_entry e m) = ''Failed to load page: '' @ m \<and>
     (launch_throws e = None \<and> newPage_throws e = None \<and> setViewport_throws e = None \<and>
      goto_throws e \<noteq> None \<longrightarrow>
        logs (snd (tried J e url d)) = captured_logs (goto_events e) \<and>
        networkLogs (snd (tried J e url d)) = captured_network (goto_events e))"
proof -
  assume failed: "fst (tried J e url d) = Some m"
  have 1: "db (snd (scan_url J e url d)) = d"
    using failed by (simp add: handler_defs split: option.splits sum.splits)
  have 2: "inserts (trace (snd (scan_url J e url d))) = []"
    using failed by (simp add: handler_defs split: option.splits sum.splits)
  have 3: "emitted_logs (trace (snd (tried J e url d))) = logs (snd (tried J e url d))"
    by (simp add: handler_defs split: option.splits sum.splits)
  have 4: "emitted_network (trace (snd (tried J e url d))) = networkLogs (snd (tried J e url d))"
    by (simp add: handler_defs split: option.splits sum.splits)
  have 5: "emitted_logs (trace (snd (scan_url J e url d))) =
       logs (snd (tried J e url d)) @ [failure_entry e m]
         @ captured_logs (if launch_throws e = None then close_events e else [])"
    using failed by (simp add: handler_defs split: option.splits sum.splits)
  have 6: "emitted_network (trace (snd (scan_url J e url d))) =
       networkLogs (snd (tried J e url d))
         @ captured_network (if launch_throws e = None then close_events e else [])"
    using failed by (simp add: handler_defs split: option.splits sum.splits)
  have 7: "logs (snd (scan_url J e url d)) =
       logs (snd (tried J e url d))
         @ captured_logs (if launch_throws e = None then close_events e else [])"
    using failed by (simp add: handler_defs split: option.splits sum.splits)
  have 8: "l_type (failure_entry e m) = ''error'' \<and>
     l_text (failure_entry e m) = ''Failed to load page: '' @ m"
    by (simp add: failure_entry_def)
  have 9: "launch_throws e = None \<and> newPage_throws e = None \<and> setViewport_throws e = None \<and>
      goto_throws e \<noteq> None \<longrightarrow>
        logs (snd (tried J e url d)) = captured_logs (goto_events e) \<and>
        networkLogs (snd (tried J e url d)) = captured_network (goto_events e)"
    by (auto simp add: handler_defs split: option.splits sum.splits)
  from 1 2 3 4 5 6 7 8 9 show ?thesis by blast
qed

theorem C1_failed_scan_witness:
  "fst (tried example_json timeout_engine ''https://example.com'' empty_db)
     = Some ''Navigation timeout of 30000 ms exceeded'' \<and>
   db (snd (scan_url example_json timeout_engine ''https://example.com'' empty_db)) = empty_db \<and>
   emitted_logs (trace (snd (scan_url example_json timeout_engine ''https://example.com'' empty_db)))
     = example_logs @
       [\<lparr>l_type = ''error'',
         l_text = ''Failed to load page: Navigation timeout of 30000 ms exceeded'',
         l_args = None, l_timestamp = ''2024-05-01T10:00:31.000Z''\<rparr>]"
proof -
  have failed: "fst (tried example_json timeout_engine ''https://example.com'' empty_db)
      = Some ''Navigation timeout of 30000 ms exceeded''"
    by (simp add: tried_outcome timeout_engine_def example_defs)
  have before: "logs (snd (tried example_json timeout_engine ''https://example.com'' empty_db))
      = example_logs"
    by (simp add: handler_defs timeout_engine_def example_defs captured_Cons
          on_console_def on_response_def blank_def)
  show ?thesis
    using failed before C1_failed_scan [OF failed]
    by (simp add: failure_entry_def timeout_engine_def example_engine_def)
qed

text \<open>
  Claim C1 as stated: a scan whose navigation times out still persists one record.  In
  the example scan that times out after the page logged two messages, the store stays
  empty.
\<close>

theorem C1_record_persisted_counterexample:
  "fst (tried example_json timeout_engine ''https://example.com'' empty_db)
     = Some ''Navigation timeout of 30000 ms exceeded'' \<and>
   logs (snd (scan_url example_json timeout_engine ''https://example.com'' empty_db))
     = example_logs \<and>
   rows (db (snd (scan_url example_json timeout_engine ''https://example.com'' empty_db))) = []"
  by (simp add: handler_defs timeout_engine_def example_defs captured_Cons
        on_console_def on_response_def blank_def)

text \<open>
  Claim C2, as the code has it.  When launch and navigation succeed and the screenshot call
  raises with message \<open>m\<close>, the scan fails like any other: the client receives the error
  payload carrying \<open>m\<close> after the synthetic error log entry, no \<^verbatim>\<open>screenshot\<close> message is
  emitted, no record is persisted, and the browser is closed once.
\<close>

theorem C2_screenshot_failure_fails_scan:
  "launch_throws e = None \<Longrightarrow> newPage_throws e = None \<Longrightarrow> setViewport_throws e = None \<Longrightarrow>
   goto_throws e = None \<Longrightarrow> screenshot_result e = Inl m \<Longrightarrow>
     completions (trace (snd (scan_url J e url d))) = [Failed m] \<and>
     db (snd (scan_url J e url d)) = d \<and>
     inserts (trace (snd (scan_url J e url d))) = [] \<and>
     emitted_screenshots (trace (snd (scan_url J e url d))) = [] \<and>
     emitted_logs (trace (snd (scan_url J e url d))) =
       captured_logs (goto_events e @ screenshot_events e) @ [failure_entry e m]
         @ captured_logs (close_events e) \<and>
     closes (trace (snd (scan_url J e url d))) = 1"
  by (simp add: handler_defs captured_append)

theorem C2_screenshot_failure_fails_scan_witness:
  "completions (trace (snd (scan_url example_json no_screenshot_engine ''https://example.com'' empty_db)))
     = [Failed ''Protocol error (Page.captureScreenshot)''] \<and>
   db (snd (scan_url example_json no_screenshot_engine ''https://example.com'' empty_db)) = empty_db \<and>
   closes (trace (snd (scan_url example_json no_screenshot_engine ''https://example.com'' empty_db))) = 1"
  using C2_screenshot_failure_fails_scan
    [of no_screenshot_engine "''Protocol error (Page.captureScreenshot)''" example_json
        "''https://example.com''" empty_db]
  by (simp add: no_screenshot_engine_def example_engine_def)

text \<open>
  Claim C2 as stated: a failing screenshot leaves the outcome a success with a persisted
  record.  In the example scan whose screenshot call fails the outcome is the error payload
  and the store stays empty.
\<close>

theorem C2_screenshot_nonfatal_counterexample:
  "launch_throws no_screenshot_engine = None \<and> goto_throws no_screenshot_engine = None \<and>
   screenshot_result no_screenshot_engine = Inl ''Protocol error (Page.captureScreenshot)'' \<and>
   completions (trace (snd (scan_url example_json no_screenshot_engine ''https://example.com'' empty_db)))
     = [Failed ''Protocol error (Page.captureScreenshot)''] \<and>
   rows (db (snd (scan_url example_json no_screenshot_engine ''https://example.com'' empty_db))) = []"
  by (simp add: handler_defs no_screenshot_engine_def example_defs)

section \<open>Network entries\<close>

lemma captured_network_wellformed:
  "n \<in> set (captured_network evs) \<Longrightarrow>
     \<not> prefix ''data:'' (n_url n) \<and> (n_errorText n \<noteq> None \<longrightarrow> n_status n = 0)"
proof (induction evs)
  case Nil
  then show ?case by simp
next
  case (Cons ev evs)
  then show ?case
    by (cases ev)
       (auto simp: captured_Cons on_console_def on_pageerror_def on_response_def
          on_requestfailed_def emit_def act_def Let_def blank_def new_session_def
          split: if_splits)
qed

lemma networkLogs_scan_url:
  "\<exists>evs. networkLogs (snd (scan_url J e url d)) = captured_network evs \<and>
         emitted_network (trace (snd (scan_url J e url d))) = captured_network evs"
proof -
  have "networkLogs (snd (scan_url J e url d)) = emitted_network (trace (snd (scan_url J e url d)))"
    by (simp add: handler_defs split: option.splits sum.splits)
  moreover have "networkLogs (snd (scan_url J e url d)) \<in>
      {captured_network [], captured_network (close_events e),
       captured_network (goto_events e @ close_events e),
       captured_network (goto_events e @ screenshot_events e @ close_events e)}"
    by (simp add: handler_defs captured_append split: option.splits sum.splits)
  ultimately show ?thesis by (metis insertE singletonD)
qed

text \<open>
  Claim C5, as the code has it.  Every network entry accumulated, emitted or persisted by a
  scan that carries an \<^verbatim>\<open>errorText\<close> has status 0.  An entry built by the request-failed
  callback has status 0 and an \<^verbatim>\<open>errorText\<close>, which is \<^verbatim>\<open>Failed\<close> when the engine supplies
  no failure (or an empty text) and the engine's text otherwise.  An entry built by the
  response callback carries no \<^verbatim>\<open>errorText\<close> and the status the engine reports, whatever
  it is.
\<close>

theorem C5_errorText_implies_status_0:
  "(\<forall>n\<in>set (networkLogs (snd (scan_url J e url d))). n_errorText n \<noteq> None \<longrightarrow> n_status n = 0) \<and>
   (\<forall>n\<in>set (emitted_network (trace (snd (scan_url J e url d)))).
      n_errorText n \<noteq> None \<longrightarrow> n_status n = 0) \<and>
   (\<forall>r\<in>set (inserts (trace (snd (scan_url J e url d)))).
      r_network r = stringify_network J (captured_network (goto_events e @ screenshot_events e))) \<and>
   (\<forall>n\<in>set (captured_network (goto_events e @ screenshot_events e)).
      n_errorText n \<noteq> None \<longrightarrow> n_status n = 0) \<and>
   (\<not> prefix ''data:'' u \<longrightarrow>
      networkLogs (on_requestfailed u m rt f now s) = networkLogs s @
        [\<lparr>n_url = u, n_status = 0, n_method = m, n_type = rt,
          n_errorText = Some (or_Failed f), n_timestamp = now\<rparr>]) \<and>
   or_Failed None = ''Failed'' \<and> or_Failed (Some []) = ''Failed'' \<and>
   (t \<noteq> [] \<longrightarrow> or_Failed (Some t) = t) \<and>
   (\<not> prefix ''data:'' u \<longrightarrow>
      networkLogs (on_response u st m rt now s) = networkLogs s @
        [\<lparr>n_url = u, n_status = st, n_method = m, n_type = rt,
          n_errorText = None, n_timestamp = now\<rparr>])"
proof -
  obtain evs where evs: "networkLogs (snd (scan_url J e url d)) = captured_network evs"
      "emitted_network (trace (snd (scan_url J e url d))) = captured_network evs"
    using networkLogs_scan_url by blast
  have 1: "\<forall>n\<in>set (networkLogs (snd (scan_url J e url d))). n_errorText n \<noteq> None \<longrightarrow> n_status n = 0"
    using captured_network_wellformed [of _ evs] by (simp add: evs)
  have 2: "\<forall>n\<in>set (emitted_network (trace (snd (scan_url J e url d)))).
      n_errorText n \<noteq> None \<longrightarrow> n_status n = 0"
    using captured_network_wellformed [of _ evs] by (simp add: evs)
  have 3: "\<forall>r\<in>set (inserts (trace (snd (scan_url J e url d)))).
      r_network r = stringify_network J (captured_network (goto_events e @ screenshot_events e))"
    by (simp add: handler_defs captured_append split: option.splits sum.splits)
  have 4: "\<forall>n\<in>set (captured_network (goto_events e @ screenshot_events e)).
      n_errorText n \<noteq> None \<longrightarrow> n_status n = 0"
    using captured_network_wellformed by blast
  have 5: "\<not> prefix ''data:'' u \<longrightarrow>
      networkLogs (on_requestfailed u m rt f now s) = networkLogs s @
        [\<lparr>n_url = u, n_status = 0, n_method = m, n_type = rt,
          n_errorText = Some (or_Failed f), n_timestamp = now\<rparr>]"
    by (simp add: on_requestfailed_def emit_def act_def Let_def)
  have 6: "or_Failed None = ''Failed'' \<and> or_Failed (Some []) = ''Failed'' \<and>
   (t \<noteq> [] \<longrightarrow> or_Failed (Some t) = t)"
    by (simp add: or_Failed_def)
  have 7: "\<not> prefix ''data:'' u \<longrightarrow>
      networkLogs (on_response u st m rt now s) = networkLogs s @
        [\<lparr>n_url = u, n_status = st, n_method = m, n_type = rt,
          n_errorText = None, n_timestamp = now\<rparr>]"
    by (simp add: on_response_def emit_def act_def Let_def)
  from 1 2 3 4 5 6 7 show ?thesis by blast
qed

theorem C5_errorText_implies_status_0_witness:
  "networkLogs (snd (scan_url example_json data_engine ''https://example.com'' empty_db)) =
     [\<lparr>n_url = ''https://example.com/'', n_status = 200, n_method = ''GET'',
       n_type = ''document'', n_errorText = None, n_timestamp = ''2024-05-01T10:00:01.000Z''\<rparr>,
      \<lparr>n_url = ''https://example.com/a.js'', n_status = 0, n_method = ''GET'',
       n_type = ''script'', n_errorText = Some ''Failed'',
       n_timestamp = ''2024-05-01T10:00:04.000Z''\<rparr>]"
  using C5_errorText_implies_status_0 [of example_json data_engine "''https://example.com''" empty_db]
  by (simp add: handler_defs data_engine_def example_defs captured_Cons
        on_requestfailed_def on_response_def or_Failed_def blank_def)

text \<open>
  Claim C5 as stated: status 0 occurs only together with an \<^verbatim>\<open>errorText\<close>.  The response
  callback copies the status the engine reports; for a response that the engine reports
  with status 0 (a page loaded from a file) the entry accumulated, emitted and persisted
  has status 0 and no \<^verbatim>\<open>errorText\<close>.
\<close>

theorem C5_status_0_without_errorText_counterexample:
  "networkLogs (snd (scan_url example_json file_engine ''file:///srv/index.html'' empty_db)) =
     [\<lparr>n_url = ''file:///srv/index.html'', n_status = 0, n_method = ''GET'',
       n_type = ''document'', n_errorText = None,
       n_timestamp = ''2024-05-01T10:00:01.000Z''\<rparr>] \<and>
   emitted_network (trace (snd (scan_url example_json file_engine ''file:///srv/index.html'' empty_db))) =
     [\<lparr>n_url = ''file:///srv/index.html'', n_status = 0, n_method = ''GET'',
       n_type = ''document'', n_errorText = None,
       n_timestamp = ''2024-05-01T10:00:01.000Z''\<rparr>] \<and>
   map r_network (rows (db (snd (scan_url example_json file_engine ''file:///srv/index.html'' empty_db)))) =
     [stringify_network example_json
       [\<lparr>n_url = ''file:///srv/index.html'', n_status = 0, n_method = ''GET'',
         n_type = ''document'', n_errorText = None,
         n_timestamp = ''2024-05-01T10:00:01.000Z''\<rparr>]]"
  by (simp add: handler_defs file_engine_def example_engine_def empty_db_def captured_Cons
        on_response_def blank_def)

text \<open>
  Claim C7.  A response or failed request whose URL starts with \<^verbatim>\<open>data:\<close> leaves the
  session as it was: nothing is accumulated and nothing is emitted.  So no network entry
  accumulated or emitted by a scan has such a URL, and the row a scan inserts holds the
  serialisation of a list of entries none of which has one; a scan adds nothing else to
  the store.
\<close>

theorem C7_no_data_urls:
  "(prefix ''data:'' u \<longrightarrow>
      on_response u st m rt now s = s \<and> on_requestfailed u m rt f now s = s) \<and>
   (\<forall>n\<in>set (networkLogs (snd (scan_url J e url d))). \<not> prefix ''data:'' (n_url n)) \<and>
   (\<forall>n\<in>set (emitted_network (trace (snd (scan_url J e url d)))). \<not> prefix ''data:'' (n_url n)) \<and>
   (\<forall>r\<in>set (inserts (trace (snd (scan_url J e url d)))).
      r_network r = stringify_network J (captured_network (goto_events e @ screenshot_events e))) \<and>
   (\<forall>n\<in>set (captured_network (goto_events e @ screenshot_events e)).
      \<not> prefix ''data:'' (n_url n)) \<and>
   rows (db (snd (scan_url J e url d))) = rows d @ inserts (trace (snd (scan_url J e url d)))"
proof -
  obtain evs where evs: "networkLogs (snd (scan_url J e url d)) = captured_network evs"
      "emitted_network (trace (snd (scan_url J e url d))) = captured_network evs"
    using networkLogs_scan_url by blast
  have 1: "prefix ''data:'' u \<longrightarrow>
      on_response u st m rt now s = s \<and> on_requestfailed u m rt f now s = s"
    by (simp add: on_response_def on_requestfailed_def Let_def)
  have 2: "\<forall>n\<in>set (networkLogs (snd (scan_url J e url d))). \<not> prefix ''data:'' (n_url n)"
    using captured_network_wellformed [of _ evs] by (simp add: evs)
  have 3: "\<forall>n\<in>set (emitted_network (trace (snd (scan_url J e url d)))).
      \<not> prefix ''data:'' (n_url n)"
    using captured_network_wellformed [of _ evs] by (simp add: evs)
  have 4: "\<forall>r\<in>set (inserts (trace (snd (scan_url J e url d)))).
      r_network r = stringify_network J (captured_network (goto_events e @ screenshot_events e))"
    by (simp add: handler_defs captured_append split: option.splits sum.splits)
  have 5: "\<forall>n\<in>set (captured_network (goto_events e @ screenshot_events e)).
      \<not> prefix ''data:'' (n_url n)"
    using captured_network_wellformed by blast
  have 6: "rows (db (snd (scan_url J e url d)))
      = rows d @ inserts (trace (snd (scan_url J e url d)))"
    by (simp add: handler_defs split: option.splits sum.splits)
  from 1 2 3 4 5 6 show ?thesis by blast
qed

theorem C7_no_data_urls_witness:
  "prefix ''data:'' ''data:image/png;base64,AAAA'' \<and>
   map n_url (networkLogs (snd (scan_url example_json data_engine ''https://example.com'' empty_db)))
     = [''https://example.com/'', ''https://example.com/a.js''] \<and>
   map n_url (emitted_network (trace (snd (scan_url example_json data_engine ''https://example.com'' empty_db))))
     = [''https://example.com/'', ''https://example.com/a.js'']"
  using C7_no_data_urls [of "''data:image/png;base64,AAAA''" _ _ _ _ _ _ example_json data_engine
      "''https://example.com''" empty_db]
  by (simp add: handler_defs data_engine_def example_defs captured_Cons
        on_requestfailed_def on_response_def or_Failed_def blank_def)

section \<open>The persisted record\<close>

text \<open>
  Claim C6.  When a scan succeeds it inserts one row.  Its \<^verbatim>\<open>error_count\<close> and
  \<^verbatim>\<open>warn_count\<close> are the numbers of entries of type \<^verbatim>\<open>error\<close> and of type \<^verbatim>\<open>warn\<close> in the
  log list accumulated up to finalization (the events of navigation and screenshot), the
  same list whose serialisation the row holds; so they count the entries of the row's own
  log list whenever the serialisation reads back as what was written.
\<close>

theorem C6_counts:
  "fst (tried J e url d) = None \<Longrightarrow>
     (\<exists>row. inserts (trace (snd (scan_url J e url d))) = [row] \<and>
        rows (db (snd (scan_url J e url d))) = rows d @ [row] \<and>
        logs (snd (tried J e url d)) = captured_logs (goto_events e @ screenshot_events e) \<and>
        r_logs row = stringify_logs J (captured_logs (goto_events e @ screenshot_events e)) \<and>
        r_error_count row =
          length (filter (\<lambda>l. l_type l = ''error'')
                    (captured_logs (goto_events e @ screenshot_events e))) \<and>
        r_warn_count row =
          length (filter (\<lambda>l. l_type l = ''warn'')
                    (captured_logs (goto_events e @ screenshot_events e))) \<and>
        (\<forall>ls. parse_logs J (r_logs row) = Some ls \<and>
              parse_logs J (stringify_logs J (captured_logs (goto_events e @ screenshot_events e)))
                = Some (captured_logs (goto_events e @ screenshot_events e)) \<longrightarrow>
              r_error_count row = length (filter (\<lambda>l. l_type l = ''error'') ls) \<and>
              r_warn_count row = length (filter (\<lambda>l. l_type l = ''warn'') ls)))"
  by (auto simp add: handler_defs captured_append split: option.splits sum.splits)

theorem C6_counts_witness:
  "fst (tried example_json example_engine ''https://example.com'' empty_db) = None \<and>
   map r_error_count (rows (db (snd (scan_url example_json example_engine ''https://example.com'' empty_db)))) = [1] \<and>
   map r_warn_count (rows (db (snd (scan_url example_json example_engine ''https://example.com'' empty_db)))) = [0] \<and>
   map (parse_logs example_json \<circ> r_logs)
     (rows (db (snd (scan_url example_json example_engine ''https://example.com'' empty_db))))
     = [Some example_logs]"
proof -
  have ok: "fst (tried example_json example_engine ''https://example.com'' empty_db) = None"
    by (simp add: tried_outcome example_defs)
  have captured: "captured_logs (goto_events example_engine @ screenshot_events example_engine)
      = example_logs"
    by (simp add: example_defs captured_Cons on_console_def on_response_def blank_def
          handler_defs)
  show ?thesis
    using ok C6_counts [OF ok]
    by (auto simp add: captured example_logs_def empty_db_def example_json_def)
qed

text \<open>
  Claim C10, as the code has it.  A scan adds at most one row to the store, and nothing
  else.  A row is inserted only when launch, page creation, viewport, navigation and the
  screenshot call have all succeeded, and its \<^verbatim>\<open>screenshot\<close> column holds the string the
  screenshot call returned, the one emitted as the \<^verbatim>\<open>screenshot\<close> message: it is never
  absent.  When the \<^verbatim>\<open>try\<close> block is left by an exception nothing is inserted.  On the
  success path the insert follows the navigation, the screenshot call and the
  \<^verbatim>\<open>screenshot\<close> message, and is not the last step: the \<^verbatim>\<open>scan-complete\<close> message and the
  closing of the browser follow it, and an error of the close call still leaves the
  handler.
\<close>

theorem C10_insert_only_after_screenshot:
  "rows (db (snd (scan_url J e url d))) = rows d @ inserts (trace (snd (scan_url J e url d))) \<and>
   length (inserts (trace (snd (scan_url J e url d)))) \<le> 1 \<and>
   (\<forall>r\<in>set (inserts (trace (snd (scan_url J e url d)))).
      launch_throws e = None \<and> newPage_throws e = None \<and> setViewport_throws e = None \<and>
      goto_throws e = None \<and> screenshot_result e = Inr (screenshotBase64 (snd (scan_url J e url d))) \<and>
      r_screenshot r = Some (screenshotBase64 (snd (scan_url J e url d))) \<and>
      emitted_screenshots (trace (snd (scan_url J e url d)))
        = [screenshotBase64 (snd (scan_url J e url d))]) \<and>
   (\<forall>m. fst (tried J e url d) = Some m \<longrightarrow>
      inserts (trace (snd (scan_url J e url d))) = [] \<and> db (snd (scan_url J e url d)) = d) \<and>
   (fst (tried J e url d) = None \<longrightarrow>
      (\<exists>row. trace (snd (scan_url J e url d)) =
         [Launch, NewPage, SetViewport, Goto url] @ published (goto_events e) @
         [TakeScreenshot] @ published (screenshot_events e) @
         [Emit (ScreenshotMsg (screenshotBase64 (snd (scan_url J e url d)))), DbInsert row,
          Emit (ScanComplete (Success (r_id row))), BrowserClose] @ published (close_events e)) \<and>
      fst (scan_url J e url d) = close_throws e)"
proof -
  have 1: "rows (db (snd (scan_url J e url d)))
      = rows d @ inserts (trace (snd (scan_url J e url d)))"
    by (simp add: handler_defs split: option.splits sum.splits)
  have 2: "length (inserts (trace (snd (scan_url J e url d)))) \<le> 1"
    by (simp add: handler_defs split: option.splits sum.splits)
  have 3: "\<forall>r\<in>set (inserts (trace (snd (scan_url J e url d)))).
      launch_throws e = None \<and> newPage_throws e = None \<and> setViewport_throws e = None \<and>
      goto_throws e = None \<and> screenshot_result e = Inr (screenshotBase64 (snd (scan_url J e url d))) \<and>
      r_screenshot r = Some (screenshotBase64 (snd (scan_url J e url d))) \<and>
      emitted_screenshots (trace (snd (scan_url J e url d)))
        = [screenshotBase64 (snd (scan_url J e url d))]"
    by (simp add: handler_defs split: option.splits sum.splits)
  have 4: "\<forall>m. fst (tried J e url d) = Some m \<longrightarrow>
      inserts (trace (snd (scan_url J e url d))) = [] \<and> db (snd (scan_url J e url d)) = d"
    by (simp add: handler_defs split: option.splits sum.splits)
  have 5: "fst (tried J e url d) = None \<longrightarrow>
      (\<exists>row. trace (snd (scan_url J e url d)) =
         [Launch, NewPage, SetViewport, Goto url] @ published (goto_events e) @
         [TakeScreenshot] @ published (screenshot_events e) @
         [Emit (ScreenshotMsg (screenshotBase64 (snd (scan_url J e url d)))), DbInsert row,
          Emit (ScanComplete (Success (r_id row))), BrowserClose] @ published (close_events e)) \<and>
      fst (scan_url J e url d) = close_throws e"
    by (simp add: handler_defs split: option.splits sum.splits)
  from 1 2 3 4 5 show ?thesis by blast
qed

theorem C10_insert_only_after_screenshot_witness:
  "map r_screenshot (rows (db (snd (scan_url example_json example_engine ''https://example.com'' empty_db))))
     = [Some ''iVBORw0KGgo=''] \<and>
   rows (db (snd (scan_url example_json no_screenshot_engine ''https://example.com'' empty_db))) = [] \<and>
   rows (db (snd (scan_url example_json no_launch_engine ''https://example.com'' empty_db))) = []"
proof -
  have shot: "screenshotBase64 (snd (scan_url example_json example_engine ''https://example.com'' empty_db))
      = ''iVBORw0KGgo=''"
    by (simp add: handler_defs example_engine_def)
  have ok: "fst (tried example_json example_engine ''https://example.com'' empty_db) = None"
    by (simp add: tried_outcome example_engine_def)
  have no_shot: "fst (tried example_json no_screenshot_engine ''https://example.com'' empty_db)
      = Some ''Protocol error (Page.captureScreenshot)''"
    by (simp add: tried_outcome no_screenshot_engine_def example_engine_def)
  have no_launch: "fst (tried example_json no_launch_engine ''https://example.com'' empty_db)
      = Some ''Failed to launch the browser process''"
    by (simp add: tried_outcome no_launch_engine_def example_engine_def)
  note a = C10_insert_only_after_screenshot
    [of example_json example_engine "''https://example.com''" empty_db]
  note b = C10_insert_only_after_screenshot
    [of example_json no_screenshot_engine "''https://example.com''" empty_db]
  note c = C10_insert_only_after_screenshot
    [of example_json no_launch_engine "''https://example.com''" empty_db]
  have "inserts (trace (snd (scan_url example_json example_engine ''https://example.com'' empty_db))) \<noteq> []"
    using a ok by (auto simp: shot)
  then have "map r_screenshot
      (inserts (trace (snd (scan_url example_json example_engine ''https://example.com'' empty_db))))
      = [Some ''iVBORw0KGgo='']"
    using a shot
    by (cases "inserts (trace (snd (scan_url example_json example_engine ''https://example.com'' empty_db)))")
       auto
  moreover have "rows (db (snd (scan_url example_json example_engine ''https://example.com'' empty_db)))
      = inserts (trace (snd (scan_url example_json example_engine ''https://example.com'' empty_db)))"
    using a by (simp add: empty_db_def)
  moreover have "rows (db (snd (scan_url example_json no_screenshot_engine ''https://example.com'' empty_db))) = []"
    using b no_shot by (simp add: empty_db_def)
  moreover have "rows (db (snd (scan_url example_json no_launch_engine ''https://example.com'' empty_db))) = []"
    using c no_launch by (simp add: empty_db_def)
  ultimately show ?thesis by simp
qed

text \<open>
  Claim C10 as stated: persistence is the last step of the success path.  In the example
  scan the insert is followed by the \<^verbatim>\<open>scan-complete\<close> message and the closing of the
  browser.
\<close>

theorem C10_persistence_last_counterexample:
  "fst (tried example_json example_engine ''https://example.com'' empty_db) = None \<and>
   drop 9 (trace (snd (scan_url example_json example_engine ''https://example.com'' empty_db))) =
     [DbInsert \<lparr>r_id = 1, r_url = ''https://example.com'', r_timestamp = 1714557605,
                r_logs = stringify_logs example_json example_logs,
                r_network = stringify_network example_json example_network,
                r_screenshot = Some ''iVBORw0KGgo='', r_error_count = 1, r_warn_count = 0\<rparr>,
      Emit (ScanComplete (Success 1)),
      BrowserClose]"
  by (simp add: handler_defs example_engine_def empty_db_def example_logs_def
        example_network_def captured_Cons on_console_def on_response_def blank_def
        next_rowid_def)

section \<open>The history routes answer\<close>

lemma insort_key_lex:
  fixes f :: "'a \<Rightarrow> int" and g :: "'a \<Rightarrow> nat"
  assumes "sorted_wrt (\<lambda>a b. f a < f b \<or> (f a = f b \<and> g a \<le> g b)) ys"
    and "\<forall>y\<in>set ys. g x \<le> g y"
  shows "sorted_wrt (\<lambda>a b. f a < f b \<or> (f a = f b \<and> g a \<le> g b)) (insort_key f x ys)"
  using assms
proof (induction ys)
  case Nil
  then show ?case by simp
next
  case (Cons y ys)
  show ?case
  proof (cases "f x \<le> f y")
    case True
    with Cons.prems show ?thesis by (auto simp: set_insort_key)
  next
    case False
    with Cons show ?thesis by (auto simp: set_insort_key)
  qed
qed

lemma sort_key_lex:
  fixes f :: "'a \<Rightarrow> int" and g :: "'a \<Rightarrow> nat"
  assumes "sorted (map g xs)"
  shows "sorted_wrt (\<lambda>a b. f a < f b \<or> (f a = f b \<and> g a \<le> g b)) (sort_key f xs)"
  using assms
proof (induction xs)
  case Nil
  then show ?case by simp
next
  case (Cons x xs)
  then have "sorted_wrt (\<lambda>a b. f a < f b \<or> (f a = f b \<and> g a \<le> g b)) (sort_key f xs)"
    and "\<forall>y\<in>set (sort_key f xs). g x \<le> g y"
    by simp_all
  then show ?case
    using insort_key_lex [of f g "sort_key f xs" x] by simp
qed

lemma history_order_fun:
  "history_order = (\<lambda>a b. r_timestamp b < r_timestamp a \<or>
     (r_timestamp a = r_timestamp b \<and> r_id a \<le> r_id b))"
  by (intro ext) (simp add: history_order_def)

lemma order_by_timestamp_desc_sorted:
  "sorted_wrt history_order (order_by_timestamp_desc rs)"
proof -
  have "sorted (map r_id (sort_key r_id rs))"
    by (rule sorted_sort_key)
  then have "sorted_wrt (\<lambda>a b. - int (r_timestamp a) < - int (r_timestamp b) \<or>
       (- int (r_timestamp a) = - int (r_timestamp b) \<and> r_id a \<le> r_id b))
     (sort_key (\<lambda>r. - int (r_timestamp r)) (sort_key r_id rs))"
    by (rule sort_key_lex)
  then show ?thesis
    unfolding order_by_timestamp_desc_def
    by (rule sorted_wrt_mono_rel [rotated]) (auto simp: history_order_def)
qed

lemma order_by_timestamp_desc_mset: "mset (order_by_timestamp_desc rs) = mset rs"
  by (simp add: order_by_timestamp_desc_def)

lemma sorted_wrt_take_drop:
  assumes "sorted_wrt P ys"
  shows "\<forall>kept\<in>set (take n ys). \<forall>left\<in>set (drop n ys). P kept left"
proof -
  from assms have "sorted_wrt P (take n ys @ drop n ys)"
    by simp
  then show ?thesis
    unfolding sorted_wrt_append by blast
qed

lemma burst_history:
  "order_by_timestamp_desc (rows burst_db) = rows burst_db"
proof -
  have "sorted (map r_id (rows burst_db))"
    by (simp add: burst_db_def stored_def comp_def sorted_map)
  then have "sort_key r_id (rows burst_db) = rows burst_db"
    by (rule sort_key_id_if_sorted)
  moreover have "sorted (map (\<lambda>r. - int (r_timestamp r)) (rows burst_db))"
    by (simp add: burst_db_def stored_def comp_def sorted_map)
  then have "sort_key (\<lambda>r. - int (r_timestamp r)) (rows burst_db) = rows burst_db"
    by (rule sort_key_id_if_sorted)
  ultimately show ?thesis
    by (simp add: order_by_timestamp_desc_def)
qed

text \<open>
  Claim C8, as the code has it.  When the statement throws, \<^verbatim>\<open>GET /api/history\<close> answers
  500 with a generic error.  Otherwise it answers with the summaries of the first 50 rows
  of the table put in the order of the history: descending timestamp, the timestamp being
  the store's clock, to the second, at the moment the row was inserted, and rows with the
  same timestamp in the order of their ids, the older first.  There are \<open>min N 50\<close>
  summaries for a table of \<open>N\<close> rows, and every row returned comes before every row left
  out in that order: of the rows inserted in the same second it is the oldest that are
  kept.  A summary carries the id, url, timestamp, error count and warn count of its row,
  and has no other field.
\<close>

theorem C8_history:
  "get_history True d = \<lparr>http_status = 500, http_body = Error ''Failed to fetch history''\<rparr> \<and>
   get_history False d =
     \<lparr>http_status = 200,
      http_body = Summaries (map summary_of (take 50 (order_by_timestamp_desc (rows d))))\<rparr> \<and>
   mset (order_by_timestamp_desc (rows d)) = mset (rows d) \<and>
   sorted_wrt history_order (order_by_timestamp_desc (rows d)) \<and>
   length (map summary_of (take 50 (order_by_timestamp_desc (rows d)))) = min (length (rows d)) 50 \<and>
   sorted_wrt (\<lambda>a b. s_timestamp b \<le> s_timestamp a)
     (map summary_of (take 50 (order_by_timestamp_desc (rows d)))) \<and>
   sorted_wrt (\<lambda>a b. s_timestamp b < s_timestamp a \<or> (s_timestamp a = s_timestamp b \<and> s_id a \<le> s_id b))
     (map summary_of (take 50 (order_by_timestamp_desc (rows d)))) \<and>
   (\<forall>kept\<in>set (take 50 (order_by_timestamp_desc (rows d))).
      \<forall>left\<in>set (drop 50 (order_by_timestamp_desc (rows d))). history_order kept left) \<and>
   s_id (summary_of r) = r_id r \<and> s_url (summary_of r) = r_url r \<and>
   s_timestamp (summary_of r) = r_timestamp r \<and>
   s_error_count (summary_of r) = r_error_count r \<and>
   s_warn_count (summary_of r) = r_warn_count r"
proof -
  let ?ys = "order_by_timestamp_desc (rows d)"
  have perm: "mset ?ys = mset (rows d)"
    by (rule order_by_timestamp_desc_mset)
  have sorted: "sorted_wrt history_order ?ys"
    by (rule order_by_timestamp_desc_sorted)
  have "length ?ys = length (rows d)"
    using perm by (metis size_mset)
  then have len: "length (map summary_of (take 50 ?ys)) = min (length (rows d)) 50"
    by simp
  have first: "sorted_wrt history_order (take 50 ?ys)"
    using sorted by (rule sorted_wrt_take)
  then have by_id:
    "sorted_wrt (\<lambda>a b. s_timestamp b < s_timestamp a \<or> (s_timestamp a = s_timestamp b \<and> s_id a \<le> s_id b))
       (map summary_of (take 50 ?ys))"
    by (simp add: sorted_wrt_map summary_of_def history_order_fun)
  from first have "sorted_wrt (\<lambda>a b. r_timestamp b \<le> r_timestamp a) (take 50 ?ys)"
    by (rule sorted_wrt_mono_rel [rotated]) (auto simp: history_order_def)
  then have by_time:
    "sorted_wrt (\<lambda>a b. s_timestamp b \<le> s_timestamp a) (map summary_of (take 50 ?ys))"
    by (simp add: sorted_wrt_map summary_of_def)
  have cut: "\<forall>kept\<in>set (take 50 ?ys). \<forall>left\<in>set (drop 50 ?ys). history_order kept left"
    using sorted by (rule sorted_wrt_take_drop)
  have ok: "get_history False d =
      \<lparr>http_status = 200, http_body = Summaries (map summary_of (take 50 ?ys))\<rparr>"
    by (simp add: get_history_def)
  have failure: "get_history True d =
      \<lparr>http_status = 500, http_body = Error ''Failed to fetch history''\<rparr>"
    by (simp add: get_history_def)
  have fields: "s_id (summary_of r) = r_id r \<and> s_url (summary_of r) = r_url r \<and>
      s_timestamp (summary_of r) = r_timestamp r \<and>
      s_error_count (summary_of r) = r_error_count r \<and>
      s_warn_count (summary_of r) = r_warn_count r"
    by (simp add: summary_of_def)
  from perm sorted ok len by_time by_id cut failure fields show ?thesis
    by blast
qed

theorem C8_history_witness:
  "(\<exists>ss. http_body (get_history False history_db) = Summaries ss \<and> map s_id ss = [2, 3, 1] \<and>
         map s_timestamp ss = [30, 20, 10]) \<and>
   (\<exists>ss. http_body (get_history False long_db) = Summaries ss \<and> length ss = 50) \<and>
   (\<exists>ss. http_body (get_history False burst_db) = Summaries ss \<and> map s_id ss = [1..<51]) \<and>
   http_status (get_history True history_db) = 500"
proof -
  have small: "order_by_timestamp_desc (rows history_db) = [stored 2 30, stored 3 20, stored 1 10]"
    by (simp add: history_db_def order_by_timestamp_desc_def stored_def)
  have "\<exists>ss. http_body (get_history False history_db) = Summaries ss \<and> map s_id ss = [2, 3, 1] \<and>
         map s_timestamp ss = [30, 20, 10]"
    using C8_history [of history_db "stored 1 10"]
    by (simp add: small summary_of_def stored_def)
  moreover have "length (rows long_db) = 60"
    by (simp add: long_db_def)
  then have "\<exists>ss. http_body (get_history False long_db) = Summaries ss \<and> length ss = 50"
    using C8_history [of long_db "stored 1 10"] by simp
  moreover have "map s_id (map summary_of (take 50 (rows burst_db))) = [1..<51]"
    by (simp add: burst_db_def take_map summary_of_def stored_def comp_def map_Suc_upt)
  then have "\<exists>ss. http_body (get_history False burst_db) = Summaries ss \<and> map s_id ss = [1..<51]"
    using C8_history [of burst_db "stored 1 10"] by (simp add: burst_history)
  moreover have "http_status (get_history True history_db) = 500"
    using C8_history [of history_db "stored 1 10"] by simp
  ultimately show ?thesis by blast
qed

text \<open>
  Claim C8 as stated: the summaries come newest first.  After two example scans inserted
  in the same second, the record of the first scan is returned before the record of the
  second.
\<close>

theorem C8_newest_first_counterexample:
  "map r_url (rows two_scans_db) = [''https://example.com'', ''https://example.org''] \<and>
   map r_timestamp (rows two_scans_db) = [1714557605, 1714557605] \<and>
   get_history False two_scans_db =
     \<lparr>http_status = 200,
      http_body = Summaries
        [\<lparr>s_id = 1, s_url = ''https://example.com'', s_timestamp = 1714557605,
          s_error_count = 1, s_warn_count = 0\<rparr>,
         \<lparr>s_id = 2, s_url = ''https://example.org'', s_timestamp = 1714557605,
          s_error_count = 1, s_warn_count = 0\<rparr>]\<rparr>"
  by (simp add: two_scans_db_def handler_defs example_engine_def empty_db_def captured_Cons
        on_console_def on_response_def blank_def next_rowid_def get_history_def
        order_by_timestamp_desc_def summary_of_def)

lemma find_after_misses:
  "find P xs = None \<Longrightarrow> find P (xs @ ys) = find P ys"
  by (induction xs) (simp_all split: if_splits)

lemma find_fresh_append:
  "find (\<lambda>r. r_id r = next_rowid d) (rows d @ [row]) =
     (if r_id row = next_rowid d then Some row else None)"
  by (simp add: find_after_misses next_rowid_fresh_find)

lemma success_db:
  assumes "fst (tried J e url d) = None"
  shows "\<exists>now shot. insert_result e = Inr now \<and> screenshot_result e = Inr shot \<and>
     rows (db (snd (scan_url J e url d))) = rows d @
       [\<lparr>r_id = next_rowid d, r_url = url, r_timestamp = now,
         r_logs = stringify_logs J (captured_logs (goto_events e @ screenshot_events e)),
         r_network = stringify_network J (captured_network (goto_events e @ screenshot_events e)),
         r_screenshot = Some shot,
         r_error_count = length (filter (\<lambda>l. l_type l = ''error'')
            (captured_logs (goto_events e @ screenshot_events e))),
         r_warn_count = length (filter (\<lambda>l. l_type l = ''warn'')
            (captured_logs (goto_events e @ screenshot_events e)))\<rparr>] \<and>
     emitted_logs (trace (snd (tried J e url d)))
       = captured_logs (goto_events e @ screenshot_events e) \<and>
     emitted_network (trace (snd (tried J e url d)))
       = captured_network (goto_events e @ screenshot_events e) \<and>
     logs (snd (scan_url J e url d))
       = captured_logs (goto_events e @ screenshot_events e) @ captured_logs (close_events e) \<and>
     networkLogs (snd (scan_url J e url d))
       = captured_network (goto_events e @ screenshot_events e) @ captured_network (close_events e) \<and>
     emitted_logs (trace (snd (scan_url J e url d)))
       = captured_logs (goto_events e @ screenshot_events e) @ captured_logs (close_events e) \<and>
     emitted_network (trace (snd (scan_url J e url d)))
       = captured_network (goto_events e @ screenshot_events e) @ captured_network (close_events e)"
  using assms
  by (auto simp add: handler_defs captured_append split: option.splits sum.splits)

text \<open>
  Claim C9, as the code has it.  \<^verbatim>\<open>GET /api/history/:id\<close> answers 500 when the statement
  throws; 404 when no row has the id; and, when a row has it, 200 with the row's columns,
  \<^verbatim>\<open>logs\<close> and \<^verbatim>\<open>network\<close> replaced by what \<^verbatim>\<open>JSON.parse\<close> reads from them (500 if it
  throws).  After a successful scan, provided \<^verbatim>\<open>JSON.parse\<close> reads back what
  \<^verbatim>\<open>JSON.stringify\<close> wrote for the two lists of the scan, the answer for the new id
  carries exactly the log entries and the network entries captured up to finalization,
  during navigation and screenshot, in the order of capture: the entries emitted to the
  client up to the \<^verbatim>\<open>scan-complete\<close> message.  What the scan captured and emitted in all
  is these entries followed by those captured while the browser was being closed, which
  are not in the record.
\<close>

theorem C9_history_by_id:
  "get_history_id J True d i = \<lparr>http_status = 500, http_body = Error ''Failed to fetch scan''\<rparr> \<and>
   ((\<forall>r\<in>set (rows d). r_id r \<noteq> i) \<longrightarrow>
      get_history_id J False d i = \<lparr>http_status = 404, http_body = Error ''Scan not found''\<rparr>) \<and>
   (\<forall>r ls ns. find (\<lambda>r. r_id r = i) (rows d) = Some r \<and>
        parse_logs J (r_logs r) = Some ls \<and> parse_network J (r_network r) = Some ns \<longrightarrow>
      get_history_id J False d i =
        \<lparr>http_status = 200,
         http_body = Scan \<lparr>f_id = r_id r, f_url = r_url r, f_timestamp = r_timestamp r,
                           f_logs = ls, f_network = ns, f_screenshot = r_screenshot r,
                           f_error_count = r_error_count r,
                           f_warn_count = r_warn_count r\<rparr>\<rparr>) \<and>
   (\<forall>r. find (\<lambda>r. r_id r = i) (rows d) = Some r \<and>
        (parse_logs J (r_logs r) = None \<or> parse_network J (r_network r) = None) \<longrightarrow>
      get_history_id J False d i =
        \<lparr>http_status = 500, http_body = Error ''Failed to fetch scan''\<rparr>) \<and>
   (fst (tried J e url d) = None \<and>
    parse_logs J (stringify_logs J (captured_logs (goto_events e @ screenshot_events e)))
      = Some (captured_logs (goto_events e @ screenshot_events e)) \<and>
    parse_network J (stringify_network J (captured_network (goto_events e @ screenshot_events e)))
      = Some (captured_network (goto_events e @ screenshot_events e)) \<longrightarrow>
      (\<exists>f. get_history_id J False (db (snd (scan_url J e url d))) (next_rowid d)
              = \<lparr>http_status = 200, http_body = Scan f\<rparr> \<and>
           f_id f = next_rowid d \<and> f_url f = url \<and>
           f_logs f = captured_logs (goto_events e @ screenshot_events e) \<and>
           f_network f = captured_network (goto_events e @ screenshot_events e) \<and>
           f_logs f = emitted_logs (trace (snd (tried J e url d))) \<and>
           f_network f = emitted_network (trace (snd (tried J e url d))) \<and>
           screenshot_result e = (case f_screenshot f of Some shot \<Rightarrow> Inr shot | None \<Rightarrow> Inl []) \<and>
           logs (snd (scan_url J e url d)) = f_logs f @ captured_logs (close_events e) \<and>
           networkLogs (snd (scan_url J e url d)) = f_network f @ captured_network (close_events e) \<and>
           emitted_logs (trace (snd (scan_url J e url d)))
             = f_logs f @ captured_logs (close_events e) \<and>
           emitted_network (trace (snd (scan_url J e url d)))
             = f_network f @ captured_network (close_events e)))"
proof -
  have 1: "get_history_id J True d i =
      \<lparr>http_status = 500, http_body = Error ''Failed to fetch scan''\<rparr>"
    by (simp add: get_history_id_def)
  have 2: "(\<forall>r\<in>set (rows d). r_id r \<noteq> i) \<longrightarrow>
      get_history_id J False d i = \<lparr>http_status = 404, http_body = Error ''Scan not found''\<rparr>"
  proof
    assume "\<forall>r\<in>set (rows d). r_id r \<noteq> i"
    then have "find (\<lambda>r. r_id r = i) (rows d) = None"
      by (simp add: find_None_iff)
    then show "get_history_id J False d i =
        \<lparr>http_status = 404, http_body = Error ''Scan not found''\<rparr>"
      by (simp add: get_history_id_def)
  qed
  have 3: "\<forall>r ls ns. find (\<lambda>r. r_id r = i) (rows d) = Some r \<and>
        parse_logs J (r_logs r) = Some ls \<and> parse_network J (r_network r) = Some ns \<longrightarrow>
      get_history_id J False d i =
        \<lparr>http_status = 200,
         http_body = Scan \<lparr>f_id = r_id r, f_url = r_url r, f_timestamp = r_timestamp r,
                           f_logs = ls, f_network = ns, f_screenshot = r_screenshot r,
                           f_error_count = r_error_count r,
                           f_warn_count = r_warn_count r\<rparr>\<rparr>"
    by (simp add: get_history_id_def)
  have 4: "\<forall>r. find (\<lambda>r. r_id r = i) (rows d) = Some r \<and>
        (parse_logs J (r_logs r) = None \<or> parse_network J (r_network r) = None) \<longrightarrow>
      get_history_id J False d i =
        \<lparr>http_status = 500, http_body = Error ''Failed to fetch scan''\<rparr>"
    by (auto simp add: get_history_id_def split: option.splits)
  have 5: "fst (tried J e url d) = None \<and>
    parse_logs J (stringify_logs J (captured_logs (goto_events e @ screenshot_events e)))
      = Some (captured_logs (goto_events e @ screenshot_events e)) \<and>
    parse_network J (stringify_network J (captured_network (goto_events e @ screenshot_events e)))
      = Some (captured_network (goto_events e @ screenshot_events e)) \<longrightarrow>
      (\<exists>f. get_history_id J False (db (snd (scan_url J e url d))) (next_rowid d)
              = \<lparr>http_status = 200, http_body = Scan f\<rparr> \<and>
           f_id f = next_rowid d \<and> f_url f = url \<and>
           f_logs f = captured_logs (goto_events e @ screenshot_events e) \<and>
           f_network f = captured_network (goto_events e @ screenshot_events e) \<and>
           f_logs f = emitted_logs (trace (snd (tried J e url d))) \<and>
           f_network f = emitted_network (trace (snd (tried J e url d))) \<and>
           screenshot_result e = (case f_screenshot f of Some shot \<Rightarrow> Inr shot | None \<Rightarrow> Inl []) \<and>
           logs (snd (scan_url J e url d)) = f_logs f @ captured_logs (close_events e) \<and>
           networkLogs (snd (scan_url J e url d)) = f_network f @ captured_network (close_events e) \<and>
           emitted_logs (trace (snd (scan_url J e url d)))
             = f_logs f @ captured_logs (close_events e) \<and>
           emitted_network (trace (snd (scan_url J e url d)))
             = f_network f @ captured_network (close_events e))"
  proof (intro impI, elim conjE)
    assume ok: "fst (tried J e url d) = None"
      and logs_back: "parse_logs J (stringify_logs J (captured_logs (goto_events e @ screenshot_events e)))
        = Some (captured_logs (goto_events e @ screenshot_events e))"
      and network_back: "parse_network J (stringify_network J (captured_network (goto_events e @ screenshot_events e)))
        = Some (captured_network (goto_events e @ screenshot_events e))"
    from success_db [OF ok] obtain now shot where
        results: "insert_result e = Inr now" "screenshot_result e = Inr shot"
      and rows: "rows (db (snd (scan_url J e url d))) = rows d @
       [\<lparr>r_id = next_rowid d, r_url = url, r_timestamp = now,
         r_logs = stringify_logs J (captured_logs (goto_events e @ screenshot_events e)),
         r_network = stringify_network J (captured_network (goto_events e @ screenshot_events e)),
         r_screenshot = Some shot,
         r_error_count = length (filter (\<lambda>l. l_type l = ''error'')
            (captured_logs (goto_events e @ screenshot_events e))),
         r_warn_count = length (filter (\<lambda>l. l_type l = ''warn'')
            (captured_logs (goto_events e @ screenshot_events e)))\<rparr>]"
      and sent: "emitted_logs (trace (snd (tried J e url d)))
          = captured_logs (goto_events e @ screenshot_events e)"
        "emitted_network (trace (snd (tried J e url d)))
          = captured_network (goto_events e @ screenshot_events e)"
      and whole: "logs (snd (scan_url J e url d))
          = captured_logs (goto_events e @ screenshot_events e) @ captured_logs (close_events e)"
        "networkLogs (snd (scan_url J e url d))
          = captured_network (goto_events e @ screenshot_events e) @ captured_network (close_events e)"
        "emitted_logs (trace (snd (scan_url J e url d)))
          = captured_logs (goto_events e @ screenshot_events e) @ captured_logs (close_events e)"
        "emitted_network (trace (snd (scan_url J e url d)))
          = captured_network (goto_events e @ screenshot_events e) @ captured_network (close_events e)"
      by blast
    show "\<exists>f. get_history_id J False (db (snd (scan_url J e url d))) (next_rowid d)
              = \<lparr>http_status = 200, http_body = Scan f\<rparr> \<and>
           f_id f = next_rowid d \<and> f_url f = url \<and>
           f_logs f = captured_logs (goto_events e @ screenshot_events e) \<and>
           f_network f = captured_network (goto_events e @ screenshot_events e) \<and>
           f_logs f = emitted_logs (trace (snd (tried J e url d))) \<and>
           f_network f = emitted_network (trace (snd (tried J e url d))) \<and>
           screenshot_result e = (case f_screenshot f of Some shot \<Rightarrow> Inr shot | None \<Rightarrow> Inl []) \<and>
           logs (snd (scan_url J e url d)) = f_logs f @ captured_logs (close_events e) \<and>
           networkLogs (snd (scan_url J e url d)) = f_network f @ captured_network (close_events e) \<and>
           emitted_logs (trace (snd (scan_url J e url d)))
             = f_logs f @ captured_logs (close_events e) \<and>
           emitted_network (trace (snd (scan_url J e url d)))
             = f_network f @ captured_network (close_events e)"
      by (simp add: get_history_id_def rows find_fresh_append logs_back network_back sent results
            whole)
  qed
  from 1 2 3 4 5 show ?thesis by blast
qed

theorem C9_history_by_id_witness:
  "get_history_id example_json False
     (db (snd (scan_url example_json example_engine ''https://example.com'' empty_db))) 1 =
     \<lparr>http_status = 200,
      http_body = Scan \<lparr>f_id = 1, f_url = ''https://example.com'', f_timestamp = 1714557605,
                        f_logs = example_logs, f_network = example_network,
                        f_screenshot = Some ''iVBORw0KGgo='', f_error_count = 1,
                        f_warn_count = 0\<rparr>\<rparr> \<and>
   get_history_id example_json False
     (db (snd (scan_url example_json example_engine ''https://example.com'' empty_db))) 2 =
     \<lparr>http_status = 404, http_body = Error ''Scan not found''\<rparr>"
proof -
  let ?d = "db (snd (scan_url example_json example_engine ''https://example.com'' empty_db))"
  have ok: "fst (tried example_json example_engine ''https://example.com'' empty_db) = None"
    by (simp add: tried_outcome example_engine_def)
  have captured:
    "captured_logs (goto_events example_engine @ screenshot_events example_engine) = example_logs"
    "captured_network (goto_events example_engine @ screenshot_events example_engine) = example_network"
    by (simp_all add: example_engine_def example_logs_def example_network_def captured_Cons
          on_console_def on_response_def blank_def handler_defs)
  have reads_back: "parse_logs example_json (stringify_logs example_json example_logs) = Some example_logs"
    "parse_network example_json (stringify_network example_json example_network) = Some example_network"
    by (simp_all add: example_json_def)
  have rows: "rows ?d =
       [\<lparr>r_id = 1, r_url = ''https://example.com'', r_timestamp = 1714557605,
         r_logs = stringify_logs example_json example_logs,
         r_network = stringify_network example_json example_network,
         r_screenshot = Some ''iVBORw0KGgo='', r_error_count = 1, r_warn_count = 0\<rparr>]"
  proof -
    from success_db [OF ok] obtain now shot where
        results: "insert_result example_engine = Inr now" "screenshot_result example_engine = Inr shot"
      and inserted: "rows ?d = rows empty_db @
        [\<lparr>r_id = next_rowid empty_db, r_url = ''https://example.com'', r_timestamp = now,
          r_logs = stringify_logs example_json example_logs,
          r_network = stringify_network example_json example_network,
          r_screenshot = Some shot,
          r_error_count = length (filter (\<lambda>l. l_type l = ''error'') example_logs),
          r_warn_count = length (filter (\<lambda>l. l_type l = ''warn'') example_logs)\<rparr>]"
      unfolding captured by blast
    from results have "now = 1714557605" "shot = ''iVBORw0KGgo=''"
      by (simp_all add: example_engine_def)
    with inserted show ?thesis
      by (simp add: empty_db_def next_rowid_def example_logs_def)
  qed
  note inst = C9_history_by_id [where J = example_json and d = ?d]
  have "get_history_id example_json False ?d 2 =
     \<lparr>http_status = 404, http_body = Error ''Scan not found''\<rparr>"
    using inst [where i = 2] by (simp add: rows)
  moreover have "find (\<lambda>r. r_id r = 1) (rows ?d) = Some (hd (rows ?d))"
    by (simp add: rows)
  then have "get_history_id example_json False ?d 1 =
     \<lparr>http_status = 200,
      http_body = Scan \<lparr>f_id = 1, f_url = ''https://example.com'', f_timestamp = 1714557605,
                        f_logs = example_logs, f_network = example_network,
                        f_screenshot = Some ''iVBORw0KGgo='', f_error_count = 1,
                        f_warn_count = 0\<rparr>\<rparr>"
    using inst [where i = 1] reads_back by (simp add: rows)
  ultimately show ?thesis by simp
qed

text \<open>
  Claim C9 as stated: the lists returned are what the scan captured.  In the example scan
  of a page that logs while the browser is being closed, the scan captured and emitted
  three log entries and the record returned holds two.
\<close>

theorem C9_late_entries_counterexample:
  "get_history_id example_json False
     (db (snd (scan_url example_json late_engine ''https://example.com'' empty_db))) 1 =
     \<lparr>http_status = 200,
      http_body = Scan \<lparr>f_id = 1, f_url = ''https://example.com'', f_timestamp = 1714557605,
                        f_logs = example_logs, f_network = example_network,
                        f_screenshot = Some ''iVBORw0KGgo='', f_error_count = 1,
                        f_warn_count = 0\<rparr>\<rparr> \<and>
   logs (snd (scan_url example_json late_engine ''https://example.com'' empty_db)) =
     example_logs @
     [\<lparr>l_type = ''log'', l_text = ''tick'', l_args = Some [''JSHandle:tick''],
       l_timestamp = ''2024-05-01T10:00:06.000Z''\<rparr>] \<and>
   emitted_logs (trace (snd (scan_url example_json late_engine ''https://example.com'' empty_db))) =
     example_logs @
     [\<lparr>l_type = ''log'', l_text = ''tick'', l_args = Some [''JSHandle:tick''],
       l_timestamp = ''2024-05-01T10:00:06.000Z''\<rparr>]"
proof -
  have captured:
    "captured_logs (goto_events example_engine) = example_logs"
    "captured_network (goto_events example_engine) = example_network"
    by (simp_all add: example_engine_def example_logs_def example_network_def captured_Cons
          on_console_def on_response_def blank_def handler_defs)
  have late: "captured_logs (close_events late_engine) =
     [\<lparr>l_type = ''log'', l_text = ''tick'', l_args = Some [''JSHandle:tick''],
       l_timestamp = ''2024-05-01T10:00:06.000Z''\<rparr>]"
    by (simp add: late_engine_def captured_Cons on_console_def blank_def handler_defs)
  have fields: "goto_events late_engine = goto_events example_engine"
    "screenshot_events late_engine = []" "launch_throws late_engine = None"
    "newPage_throws late_engine = None" "setViewport_throws late_engine = None"
    "goto_throws late_engine = None" "screenshot_result late_engine = Inr ''iVBORw0KGgo=''"
    "insert_result late_engine = Inr 1714557605"
    by (simp_all add: late_engine_def example_engine_def)
  have reads_back:
    "parse_logs example_json (stringify_logs example_json example_logs) = Some example_logs"
    "parse_network example_json (stringify_network example_json example_network) = Some example_network"
    by (simp_all add: example_json_def)
  have counts: "length (filter (\<lambda>l. l_type l = ''error'') example_logs) = 1"
    "length (filter (\<lambda>l. l_type l = ''warn'') example_logs) = 0"
    by (simp_all add: example_logs_def)
  show ?thesis
    by (simp add: scan_url_def tried_def try_block_def navigate_def finalize_def
          finally_block_def new_session_def emit_def act_def Let_def fire_all_eq fields
          captured late reads_back counts get_history_id_def empty_db_def next_rowid_def)
qed

end
